theory Spec2Isabelle
  imports Main "HOL-Library.AList"
begin

unbundle bit_operations_syntax

section \<open>Exceptions\<close>

text \<open>
  Every exception a handler or repository function can raise is a value. An
  \<open>HTTPException\<close> carries its status code and its detail message; every other
  exception is not caught anywhere and reaches the client as status 500.
\<close>

datatype error =
    HTTPException nat string
  | AttributeError string
  | KeyError string
  | IntegrityError
  | OverflowError

fun status_code :: "error \<Rightarrow> nat" where
  "status_code (HTTPException code detail) = code"
| "status_code (AttributeError a) = 500"
| "status_code (KeyError k) = 500"
| "status_code IntegrityError = 500"
| "status_code OverflowError = 500"

section \<open>Calendar dates\<close>

text \<open>
  Python's \<open>datetime.date\<close> with the proleptic Gregorian calendar, and
  \<open>date + timedelta(days=n)\<close> for \<open>n \<ge> 0\<close>, which raises \<open>OverflowError\<close>
  beyond year 9999.
\<close>

record date =
  year :: int
  month :: int
  day :: int

definition is_leap :: "int \<Rightarrow> bool" where
  "is_leap y = (y mod 4 = 0 \<and> (y mod 400 = 0 \<or> y mod 100 \<noteq> 0))"

definition days_in_month :: "int \<Rightarrow> int \<Rightarrow> int" where
  "days_in_month y m =
     (if m = 2 then (if is_leap y then 29 else 28)
      else if m = 4 \<or> m = 6 \<or> m = 9 \<or> m = 11 then 30
      else 31)"

definition next_day :: "date \<Rightarrow> date" where
  "next_day d =
     (if day d < days_in_month (year d) (month d) then d\<lparr>day := day d + 1\<rparr>
      else if month d < 12 then d\<lparr>month := month d + 1, day := 1\<rparr>
      else \<lparr>year = year d + 1, month = 1, day = 1\<rparr>)"

fun add_days :: "date \<Rightarrow> nat \<Rightarrow> date" where
  "add_days d 0 = d"
| "add_days d (Suc n) = add_days (next_day d) n"

definition date_plus_timedelta :: "date \<Rightarrow> nat \<Rightarrow> error + date" where
  "date_plus_timedelta d days =
     (let r = add_days d days in if 9999 < year r then Inl OverflowError else Inr r)"

text \<open>A date of the calendar: the dates that \<open>date.today()\<close> can return.\<close>

definition valid_date :: "date \<Rightarrow> bool" where
  "valid_date d =
     (1 \<le> month d \<and> month d \<le> 12 \<and> 1 \<le> day d \<and> day d \<le> days_in_month (year d) (month d))"

section \<open>Signed tokens (the jose library)\<close>

text \<open>
  The token service calls \<open>jwt.encode\<close> and \<open>jwt.decode\<close> of the jose library.
  The library is modelled symbolically: a token is the payload together with the key
  and the algorithm that signed it, or a string that is no token at all. A payload is
  a Python dict, kept as an association list in insertion order; time claims are whole
  seconds, as jose writes them.

  \<open>jwt.decode\<close> verifies the signature (the key, and the header's algorithm among
  the accepted ones), then the registered claims, in this order: \<open>iat\<close> and
  \<open>nbf\<close> must be integers and \<open>nbf\<close> not later than now; \<open>exp\<close> must be an
  integer not earlier than now; \<open>aud\<close> must name the audience passed to
  \<open>decode\<close>, and the service passes none; \<open>sub\<close> and \<open>jti\<close> must be
  strings; \<open>at_hash\<close> needs the access token passed to \<open>decode\<close>, and the
  service passes none. An absent claim passes its check. Every failure is a
  \<open>JWTError\<close> or one of its subclasses. A time claim that is a string is refused
  here, also where jose would read a number from it.
\<close>

datatype jval = JStr string | JInt int

type_synonym claims = "(string \<times> jval) list"

datatype token = JWS string string claims | Malformed string

datatype jwt_error = JWTError | ExpiredSignatureError | JWTClaimsError

definition jwt_encode :: "claims \<Rightarrow> string \<Rightarrow> string \<Rightarrow> token" where
  "jwt_encode payload key algorithm = JWS key algorithm payload"

definition validate_iat :: "claims \<Rightarrow> jwt_error option" where
  "validate_iat payload =
     (case map_of payload ''iat'' of
        None \<Rightarrow> None
      | Some (JStr s) \<Rightarrow> Some JWTClaimsError
      | Some (JInt iat) \<Rightarrow> None)"

definition validate_nbf :: "claims \<Rightarrow> int \<Rightarrow> jwt_error option" where
  "validate_nbf payload now =
     (case map_of payload ''nbf'' of
        None \<Rightarrow> None
      | Some (JStr s) \<Rightarrow> Some JWTClaimsError
      | Some (JInt nbf) \<Rightarrow> if now < nbf then Some JWTClaimsError else None)"

definition validate_exp :: "claims \<Rightarrow> int \<Rightarrow> jwt_error option" where
  "validate_exp payload now =
     (case map_of payload ''exp'' of
        None \<Rightarrow> None
      | Some (JStr s) \<Rightarrow> Some JWTClaimsError
      | Some (JInt exp) \<Rightarrow> if exp < now then Some ExpiredSignatureError else None)"

definition validate_aud :: "claims \<Rightarrow> jwt_error option" where
  "validate_aud payload =
     (case map_of payload ''aud'' of
        None \<Rightarrow> None
      | Some aud \<Rightarrow> Some JWTClaimsError)"

definition validate_sub :: "claims \<Rightarrow> jwt_error option" where
  "validate_sub payload =
     (case map_of payload ''sub'' of
        None \<Rightarrow> None
      | Some (JStr s) \<Rightarrow> None
      | Some (JInt n) \<Rightarrow> Some JWTClaimsError)"

definition validate_jti :: "claims \<Rightarrow> jwt_error option" where
  "validate_jti payload =
     (case map_of payload ''jti'' of
        None \<Rightarrow> None
      | Some (JStr s) \<Rightarrow> None
      | Some (JInt n) \<Rightarrow> Some JWTClaimsError)"

definition validate_at_hash :: "claims \<Rightarrow> jwt_error option" where
  "validate_at_hash payload =
     (case map_of payload ''at_hash'' of
        None \<Rightarrow> None
      | Some h \<Rightarrow> Some JWTClaimsError)"

fun first_error :: "jwt_error option list \<Rightarrow> jwt_error option" where
  "first_error [] = None"
| "first_error (None # checks) = first_error checks"
| "first_error (Some e # checks) = Some e"

definition validate_claims :: "claims \<Rightarrow> int \<Rightarrow> jwt_error option" where
  "validate_claims payload now =
     first_error [validate_iat payload, validate_nbf payload now, validate_exp payload now,
                  validate_aud payload, validate_sub payload, validate_jti payload,
                  validate_at_hash payload]"

fun jwt_decode :: "token \<Rightarrow> string \<Rightarrow> string list \<Rightarrow> int \<Rightarrow> jwt_error + claims" where
  "jwt_decode (Malformed s) key algorithms now = Inl JWTError"
| "jwt_decode (JWS k a payload) key algorithms now =
     (if k = key \<and> a \<in> set algorithms then
        (case validate_claims payload now of
           Some e \<Rightarrow> Inl e
         | None \<Rightarrow> Inr payload)
      else Inl JWTError)"

text \<open>\<open>dict.update\<close>: an existing key keeps its place, a new key goes last.\<close>

fun dict_update :: "claims \<Rightarrow> claims \<Rightarrow> claims" where
  "dict_update d [] = d"
| "dict_update d ((k, v) # kvs) = dict_update (AList.update k v d) kvs"

section \<open>The database\<close>

text \<open>
  The two tables of \<open>models.py\<close>, a row per record with one field per mapped column.
  Timestamps are whole seconds. \<open>created_at\<close> and \<open>updated_at\<close> default to the
  time of the INSERT; \<open>updated_at\<close> is set again by every UPDATE of the row
  (\<open>onupdate=func.now()\<close>).
\<close>

record user_row =
  u_id :: int
  u_name :: string
  u_last_name :: string
  u_day_of_born :: date
  u_email :: string
  u_password :: string
  u_description :: string
  u_avatar :: "string option"
  u_created_at :: int
  u_updated_at :: int
  u_confirmed :: bool

record contact_row =
  c_id :: int
  c_phone_number :: string
  c_created_at :: int
  c_updated_at :: int
  c_user_id :: "int option"

record db =
  users :: "user_row list"
  contacts :: "contact_row list"

text \<open>
  A \<open>User\<close> instance in memory: the mapped columns, and the two attributes that
  the repository assigns although \<open>models.py\<close> maps no column or relationship of
  that name (\<open>phones\<close> in \<open>update_user\<close>, \<open>refresh_token\<close> in
  \<open>update_token\<close>). Such an attribute lives on the instance only: it is absent
  (\<open>None\<close> here) on every instance a query loads, reading it while absent raises
  \<open>AttributeError\<close>, and a commit writes the mapped columns alone.
  The value of \<open>refresh_token\<close> is a token or Python's \<open>None\<close>.
\<close>

record user =
  row :: user_row
  phones_attr :: "contact_row list option"
  refresh_token_attr :: "token option option"

definition load :: "user_row \<Rightarrow> user" where
  "load r = \<lparr>row = r, phones_attr = None, refresh_token_attr = None\<rparr>"

text \<open>
  \<open>db.commit()\<close> after attribute assignments on a loaded \<open>User\<close>: the row of
  the same primary key is rewritten when a mapped column differs from the stored one
  (no UPDATE is issued otherwise), \<open>updated_at\<close> is refreshed by the UPDATE, and
  the unique index on \<open>email\<close> rejects an email another row holds.
\<close>

definition email_taken :: "user_row \<Rightarrow> db \<Rightarrow> bool" where
  "email_taken r d = list_ex (\<lambda>x. u_id x \<noteq> u_id r \<and> u_email x = u_email r) (users d)"

definition commit_user :: "int \<Rightarrow> user \<Rightarrow> db \<Rightarrow> error + db" where
  "commit_user now u d =
     (case find (\<lambda>x. u_id x = u_id (row u)) (users d) of
        None \<Rightarrow> Inr d
      | Some stored \<Rightarrow>
          if row u = stored then Inr d
          else if u_email (row u) \<noteq> u_email stored \<and> email_taken (row u) d
            then Inl IntegrityError
          else Inr (d\<lparr>users :=
             map (\<lambda>x. if u_id x = u_id (row u) then (row u)\<lparr>u_updated_at := now\<rparr> else x)
               (users d)\<rparr>))"

text \<open>The same for a loaded \<open>Contact\<close>; its table has no unique index but the key.\<close>

definition commit_contact :: "int \<Rightarrow> contact_row \<Rightarrow> db \<Rightarrow> db" where
  "commit_contact now c d =
     (case find (\<lambda>x. c_id x = c_id c) (contacts d) of
        None \<Rightarrow> d
      | Some stored \<Rightarrow>
          if c = stored then d
          else d\<lparr>contacts :=
             map (\<lambda>x. if c_id x = c_id c then c\<lparr>c_updated_at := now\<rparr> else x) (contacts d)\<rparr>)"

text \<open>
  After a commit the columns of an instance are read again from its row on the next
  access; the attributes that are not mapped stay as they are.
\<close>

definition refresh :: "user \<Rightarrow> db \<Rightarrow> user" where
  "refresh u d =
     (case find (\<lambda>x. u_id x = u_id (row u)) (users d) of
        None \<Rightarrow> u
      | Some x \<Rightarrow> u\<lparr>row := x\<rparr>)"

section \<open>Request bodies (schemas.py)\<close>

record ContactModel =
  b_phone_number :: string

record UserModel =
  b_name :: string
  b_last_name :: string
  b_day_of_born :: date
  b_email :: string
  b_description :: string
  b_password :: string
  b_contacts :: "int list"

section \<open>repository/users.py\<close>

text \<open>
  \<open>.first()\<close> is the first row the filter keeps. The email that the callers pass
  is a Python value: a string of a request body, or the \<open>sub\<close> claim of a token.
\<close>

definition find_user_by_email :: "jval \<Rightarrow> db \<Rightarrow> user option" where
  "find_user_by_email user_email d =
     map_option load (find (\<lambda>x. JStr (u_email x) = user_email) (users d))"

text \<open>
  \<open>date.today()\<close> is the parameter \<open>today\<close>. In Python \<open>|\<close> binds tighter
  than \<open>==\<close>, so the month of birth is compared with the bitwise OR of the two
  months of the window.
\<close>

definition find_next_7_days_birthdays :: "date \<Rightarrow> db \<Rightarrow> error + user list" where
  "find_next_7_days_birthdays today d =
     (case date_plus_timedelta today 1 of
        Inl e \<Rightarrow> Inl e
      | Inr today_date \<Rightarrow>
          (case date_plus_timedelta today_date 7 of
             Inl e \<Rightarrow> Inl e
           | Inr seventh_day_date \<Rightarrow>
               Inr (map load (filter
                 (\<lambda>x. month (u_day_of_born x) = (month today_date OR month seventh_day_date)
                    \<and> day today_date \<le> day (u_day_of_born x)
                    \<and> day (u_day_of_born x) \<le> day seventh_day_date)
                 (users d)))))"

text \<open>
  \<open>update_user\<close>: the five column assignments, the assignment to the unmapped
  attribute \<open>phones\<close>, and the commit. The caller's own row is the only one the
  filter can keep.
\<close>

definition update_user ::
  "int \<Rightarrow> UserModel \<Rightarrow> int \<Rightarrow> db \<Rightarrow> user \<Rightarrow> (error + user option) \<times> db" where
  "update_user user_id body now d caller =
     (case find (\<lambda>x. u_id x = user_id \<and> u_id x = u_id (row caller)) (users d) of
        None \<Rightarrow> (Inr None, d)
      | Some r \<Rightarrow>
          (let phones = filter (\<lambda>c. c_id c \<in> set (b_contacts body)) (contacts d);
               u = (load r)\<lparr>row := r\<lparr>u_name := b_name body,
                                    u_last_name := b_last_name body,
                                    u_day_of_born := b_day_of_born body,
                                    u_email := b_email body,
                                    u_description := b_description body\<rparr>,
                               phones_attr := Some phones\<rparr>
           in case commit_user now u d of
                Inl e \<Rightarrow> (Inl e, d)
              | Inr d' \<Rightarrow>
                  (Inr (Some (refresh u d')), d')))"

text \<open>
  \<open>create_user\<close>: \<open>avatar\<close> is what the Gravatar lookup gave (\<open>None\<close> when it
  raised), \<open>new_id\<close> the key the database generates. The INSERT fails on a key or an
  email that a row already holds. \<open>confirmed\<close> is not passed to the constructor and
  takes the column default. Passing \<open>contacts\<close> to the constructor makes every
  selected contact a contact of the new user.
\<close>

definition create_user ::
  "UserModel \<Rightarrow> string option \<Rightarrow> int \<Rightarrow> int \<Rightarrow> db \<Rightarrow> (error + user) \<times> db" where
  "create_user body avatar new_id now d =
     (let new_user = \<lparr>u_id = new_id,
                       u_name = b_name body,
                       u_last_name = b_last_name body,
                       u_day_of_born = b_day_of_born body,
                       u_email = b_email body,
                       u_password = b_password body,
                       u_description = b_description body,
                       u_avatar = avatar,
                       u_created_at = now,
                       u_updated_at = now,
                       u_confirmed = False\<rparr>
      in if list_ex (\<lambda>x. u_id x = new_id \<or> u_email x = b_email body) (users d)
         then (Inl IntegrityError, d)
         else (Inr (load new_user),
               d\<lparr>users := users d @ [new_user],
                  contacts :=
                    map (\<lambda>c. if c_id c \<in> set (b_contacts body)
                              then c\<lparr>c_user_id := Some new_id, c_updated_at := now\<rparr> else c)
                      (contacts d)\<rparr>))"

text \<open>
  \<open>update_token\<close> assigns the unmapped attribute \<open>refresh_token\<close>; the commit
  that follows has no column to write.
\<close>

definition update_token :: "user \<Rightarrow> token option \<Rightarrow> db \<Rightarrow> user \<times> db" where
  "update_token u tok d = (u\<lparr>refresh_token_attr := Some tok\<rparr>, d)"

text \<open>
  \<open>remove_user\<close>: the relationship \<open>contacts\<close> has no delete cascade, so the
  session first detaches the contacts of the user (\<open>user_id\<close> becomes NULL) and
  then deletes the row.
\<close>

definition remove_user :: "int \<Rightarrow> int \<Rightarrow> db \<Rightarrow> user \<Rightarrow> user option \<times> db" where
  "remove_user user_id now d caller =
     (case find (\<lambda>x. u_id x = user_id \<and> u_id x = u_id (row caller)) (users d) of
        None \<Rightarrow> (None, d)
      | Some r \<Rightarrow>
          (Some (load r),
           d\<lparr>users := filter (\<lambda>x. u_id x \<noteq> u_id r) (users d),
              contacts :=
                map (\<lambda>c. if c_user_id c = Some (u_id r)
                          then c\<lparr>c_user_id := None, c_updated_at := now\<rparr> else c)
                  (contacts d)\<rparr>))"

definition update_avatar :: "jval \<Rightarrow> string \<Rightarrow> int \<Rightarrow> db \<Rightarrow> (error + user) \<times> db" where
  "update_avatar email url now d =
     (case find_user_by_email email d of
        None \<Rightarrow> (Inl (AttributeError ''avatar''), d)
      | Some u \<Rightarrow>
          (let u' = u\<lparr>row := (row u)\<lparr>u_avatar := Some url\<rparr>\<rparr>
           in case commit_user now u' d of
                Inl e \<Rightarrow> (Inl e, d)
              | Inr d' \<Rightarrow> (Inr (refresh u' d'), d')))"

definition confirmed_email :: "jval \<Rightarrow> int \<Rightarrow> db \<Rightarrow> (error + unit) \<times> db" where
  "confirmed_email email now d =
     (case find_user_by_email email d of
        None \<Rightarrow> (Inl (AttributeError ''confirmed''), d)
      | Some u \<Rightarrow>
          (case commit_user now (u\<lparr>row := (row u)\<lparr>u_confirmed := True\<rparr>\<rparr>) d of
             Inl e \<Rightarrow> (Inl e, d)
           | Inr d' \<Rightarrow> (Inr (), d')))"

section \<open>repository/contacts.py\<close>

text \<open>
  \<open>create_contact\<close> passes the phone number alone, so \<open>user_id\<close> is NULL.
  The filter of \<open>update_contact\<close> and \<open>remove_contact\<close> compares \<open>user_id\<close>
  with the caller's id; a NULL \<open>user_id\<close> equals no id.
\<close>

definition create_contact ::
  "ContactModel \<Rightarrow> int \<Rightarrow> int \<Rightarrow> db \<Rightarrow> (error + contact_row) \<times> db" where
  "create_contact body new_id now d =
     (let contact = \<lparr>c_id = new_id,
                      c_phone_number = b_phone_number body,
                      c_created_at = now,
                      c_updated_at = now,
                      c_user_id = None\<rparr>
      in if list_ex (\<lambda>x. c_id x = new_id) (contacts d) then (Inl IntegrityError, d)
         else (Inr contact, d\<lparr>contacts := contacts d @ [contact]\<rparr>))"

definition update_contact ::
  "int \<Rightarrow> ContactModel \<Rightarrow> int \<Rightarrow> db \<Rightarrow> user \<Rightarrow> contact_row option \<times> db" where
  "update_contact contact_id body now d caller =
     (case find (\<lambda>x. c_id x = contact_id \<and> c_user_id x = Some (u_id (row caller))) (contacts d) of
        None \<Rightarrow> (None, d)
      | Some c \<Rightarrow>
          (let d' = commit_contact now (c\<lparr>c_phone_number := b_phone_number body\<rparr>) d
           in (find (\<lambda>x. c_id x = c_id c) (contacts d'), d')))"

definition remove_contact :: "int \<Rightarrow> db \<Rightarrow> user \<Rightarrow> contact_row option \<times> db" where
  "remove_contact contact_id d caller =
     (case find (\<lambda>x. c_id x = contact_id \<and> c_user_id x = Some (u_id (row caller))) (contacts d) of
        None \<Rightarrow> (None, d)
      | Some c \<Rightarrow> (Some c, d\<lparr>contacts := filter (\<lambda>x. c_id x \<noteq> c_id c) (contacts d)\<rparr>))"

section \<open>services/auth.py\<close>

text \<open>
  The class \<open>Auth\<close>: the password context of passlib (its \<open>hash\<close> and
  \<open>verify\<close>, taken as they are), the signing key and the algorithm of the
  settings. \<open>datetime.utcnow()\<close> is the parameter \<open>now\<close>, in whole seconds, and
  \<open>expires_delta\<close> counts whole seconds.
\<close>

record crypt_context =
  cc_hash :: "string \<Rightarrow> string"
  cc_verify :: "string \<Rightarrow> string \<Rightarrow> bool"

record Auth =
  pwd_context :: crypt_context
  SECRET_KEY :: string
  ALGORITHM :: string

definition verify_password :: "Auth \<Rightarrow> string \<Rightarrow> string \<Rightarrow> bool" where
  "verify_password self plain_password hashed_password =
     cc_verify (pwd_context self) plain_password hashed_password"

definition get_password_hash :: "Auth \<Rightarrow> string \<Rightarrow> string" where
  "get_password_hash self password = cc_hash (pwd_context self) password"

text \<open>
  \<open>timedelta(seconds=s)\<close> raises \<open>OverflowError\<close> unless the span is within
  999999999 days either way, and \<open>datetime + timedelta\<close> raises it unless the sum
  is a datetime, from 0001-01-01 00:00:00 to 9999-12-31 23:59:59: the seconds
  -62135596800 to 253402300799 of the epoch.
\<close>

definition timedelta_seconds :: "int \<Rightarrow> error + int" where
  "timedelta_seconds s =
     (if - 86399999913600 \<le> s \<and> s \<le> 86399999999999 then Inr s else Inl OverflowError)"

definition in_datetime_range :: "int \<Rightarrow> bool" where
  "in_datetime_range t = (- 62135596800 \<le> t \<and> t \<le> 253402300799)"

definition datetime_plus :: "int \<Rightarrow> int \<Rightarrow> error + int" where
  "datetime_plus now delta =
     (if in_datetime_range (now + delta) then Inr (now + delta) else Inl OverflowError)"

text \<open>\<open>if expires_delta:\<close> is false for \<open>None\<close> and for zero.\<close>

definition create_access_token :: "Auth \<Rightarrow> int \<Rightarrow> claims \<Rightarrow> int option \<Rightarrow> error + token" where
  "create_access_token self now data expires_delta =
     (case (case expires_delta of
              None \<Rightarrow> datetime_plus now (15 * 60)
            | Some s \<Rightarrow>
                if s \<noteq> 0 then
                  (case timedelta_seconds s of
                     Inl e \<Rightarrow> Inl e
                   | Inr delta \<Rightarrow> datetime_plus now delta)
                else datetime_plus now (15 * 60)) of
        Inl e \<Rightarrow> Inl e
      | Inr expire \<Rightarrow>
          Inr (jwt_encode
                 (dict_update data
                    [(''iat'', JInt now), (''exp'', JInt expire), (''scope'', JStr ''access_token'')])
                 (SECRET_KEY self) (ALGORITHM self)))"

definition create_refresh_token :: "Auth \<Rightarrow> int \<Rightarrow> claims \<Rightarrow> int option \<Rightarrow> error + token" where
  "create_refresh_token self now data expires_delta =
     (case (case expires_delta of
              None \<Rightarrow> datetime_plus now (7 * 86400)
            | Some s \<Rightarrow>
                if s \<noteq> 0 then
                  (case timedelta_seconds s of
                     Inl e \<Rightarrow> Inl e
                   | Inr delta \<Rightarrow> datetime_plus now delta)
                else datetime_plus now (7 * 86400)) of
        Inl e \<Rightarrow> Inl e
      | Inr expire \<Rightarrow>
          Inr (jwt_encode
                 (dict_update data
                    [(''iat'', JInt now), (''exp'', JInt expire), (''scope'', JStr ''refresh_token'')])
                 (SECRET_KEY self) (ALGORITHM self)))"

definition credentials_exception :: error where
  "credentials_exception = HTTPException 401 ''Could not validate credentials''"

definition get_current_user :: "Auth \<Rightarrow> int \<Rightarrow> token \<Rightarrow> db \<Rightarrow> error + user" where
  "get_current_user self now tok d =
     (case jwt_decode tok (SECRET_KEY self) [ALGORITHM self] now of
        Inl e \<Rightarrow> Inl credentials_exception
      | Inr payload \<Rightarrow>
          if map_of payload ''scope'' = Some (JStr ''access_token'') then
            (case map_of payload ''sub'' of
               None \<Rightarrow> Inl credentials_exception
             | Some email \<Rightarrow>
                 (case find_user_by_email email d of
                    None \<Rightarrow> Inl credentials_exception
                  | Some u \<Rightarrow> Inr u))
          else Inl credentials_exception)"

text \<open>
  \<open>payload["scope"]\<close> and \<open>payload["sub"]\<close> raise \<open>KeyError\<close> on a payload
  without the key; only \<open>JWTError\<close> is caught.
\<close>

definition decode_refresh_token :: "Auth \<Rightarrow> int \<Rightarrow> token \<Rightarrow> error + jval" where
  "decode_refresh_token self now tok =
     (case jwt_decode tok (SECRET_KEY self) [ALGORITHM self] now of
        Inl e \<Rightarrow> Inl (HTTPException 401 ''Could not validate credentials'')
      | Inr payload \<Rightarrow>
          (case map_of payload ''scope'' of
             None \<Rightarrow> Inl (KeyError ''scope'')
           | Some scope \<Rightarrow>
               if scope = JStr ''refresh_token'' then
                 (case map_of payload ''sub'' of
                    None \<Rightarrow> Inl (KeyError ''sub'')
                  | Some email \<Rightarrow> Inr email)
               else Inl (HTTPException 401 ''Invalid scope for token'')))"

definition create_email_token :: "Auth \<Rightarrow> int \<Rightarrow> claims \<Rightarrow> error + token" where
  "create_email_token self now data =
     (case datetime_plus now (7 * 86400) of
        Inl e \<Rightarrow> Inl e
      | Inr expire \<Rightarrow>
          Inr (jwt_encode
                 (dict_update data
                    [(''iat'', JInt now), (''exp'', JInt expire), (''scope'', JStr ''email_token'')])
                 (SECRET_KEY self) (ALGORITHM self)))"

definition get_email_from_token :: "Auth \<Rightarrow> int \<Rightarrow> token \<Rightarrow> error + jval" where
  "get_email_from_token self now tok =
     (case jwt_decode tok (SECRET_KEY self) [ALGORITHM self] now of
        Inl e \<Rightarrow> Inl (HTTPException 422 ''Invalid token for email verification'')
      | Inr payload \<Rightarrow>
          (case map_of payload ''scope'' of
             None \<Rightarrow> Inl (KeyError ''scope'')
           | Some scope \<Rightarrow>
               if scope = JStr ''email_token'' then
                 (case map_of payload ''sub'' of
                    None \<Rightarrow> Inl (KeyError ''sub'')
                  | Some email \<Rightarrow> Inr email)
               else Inl (HTTPException 401 ''Invalid scope for token'')))"

section \<open>routes/auth.py\<close>

text \<open>
  A handler takes the database and the queue of background tasks and returns its
  response (or the exception it raised) with both as it leaves them. A queued task is
  the call of \<open>send_email\<close> with its three arguments; it runs after the response.
\<close>

record send_email_task =
  t_email :: string
  t_name :: string
  t_host :: string

record TokenModel =
  tm_access_token :: token
  tm_refresh_token :: token
  tm_token_type :: string

definition signup ::
  "Auth \<Rightarrow> UserModel \<Rightarrow> string option \<Rightarrow> int \<Rightarrow> int \<Rightarrow> string \<Rightarrow> send_email_task list \<Rightarrow> db
     \<Rightarrow> (error + user \<times> string) \<times> send_email_task list \<times> db" where
  "signup self body avatar new_id now base_url background_tasks d =
     (case find_user_by_email (JStr (b_email body)) d of
        Some exist_user \<Rightarrow> (Inl (HTTPException 409 ''Account already exists''), background_tasks, d)
      | None \<Rightarrow>
          (let body' = body\<lparr>b_password := get_password_hash self (b_password body)\<rparr>
           in case create_user body' avatar new_id now d of
                (Inl e, d') \<Rightarrow> (Inl e, background_tasks, d')
              | (Inr new_user, d') \<Rightarrow>
                  (Inr (new_user, ''User successfully created. Check your email for confirmation.''),
                   background_tasks @
                     [\<lparr>t_email = u_email (row new_user), t_name = u_name (row new_user),
                       t_host = base_url\<rparr>],
                   d')))"

definition login :: "Auth \<Rightarrow> int \<Rightarrow> string \<Rightarrow> string \<Rightarrow> db \<Rightarrow> (error + TokenModel) \<times> db" where
  "login self now username password d =
     (case find_user_by_email (JStr username) d of
        None \<Rightarrow> (Inl (HTTPException 401 ''Invalid email''), d)
      | Some u \<Rightarrow>
          if \<not> u_confirmed (row u) then (Inl (HTTPException 401 ''Email not confirmed''), d)
          else if \<not> verify_password self password (u_password (row u))
            then (Inl (HTTPException 401 ''Invalid password''), d)
          else
            (case create_access_token self now [(''sub'', JStr (u_email (row u)))] None of
               Inl e \<Rightarrow> (Inl e, d)
             | Inr access_tok \<Rightarrow>
                 (case create_refresh_token self now [(''sub'', JStr (u_email (row u)))] None of
                    Inl e \<Rightarrow> (Inl e, d)
                  | Inr refresh_tok \<Rightarrow>
                      (let (u', d') = update_token u (Some refresh_tok) d
                       in (Inr \<lparr>tm_access_token = access_tok, tm_refresh_token = refresh_tok,
                                 tm_token_type = ''bearer''\<rparr>, d')))))"

text \<open>
  \<open>refresh_token\<close> reads the attribute \<open>refresh_token\<close> of the instance that
  \<open>find_user_by_email\<close> has just loaded (or of \<open>None\<close> when no row has the email).
\<close>

definition refresh_token :: "Auth \<Rightarrow> int \<Rightarrow> token \<Rightarrow> db \<Rightarrow> (error + TokenModel) \<times> db" where
  "refresh_token self now tok d =
     (case decode_refresh_token self now tok of
        Inl e \<Rightarrow> (Inl e, d)
      | Inr email \<Rightarrow>
          (case find_user_by_email email d of
             None \<Rightarrow> (Inl (AttributeError ''refresh_token''), d)
           | Some u \<Rightarrow>
               (case refresh_token_attr u of
                  None \<Rightarrow> (Inl (AttributeError ''refresh_token''), d)
                | Some stored \<Rightarrow>
                    if stored \<noteq> Some tok then
                      (let (u', d') = update_token u None d
                       in (Inl (HTTPException 401 ''Invalid refresh token''), d'))
                    else
                      (case create_access_token self now [(''sub'', email)] None of
                         Inl e \<Rightarrow> (Inl e, d)
                       | Inr access_tok \<Rightarrow>
                           (case create_refresh_token self now [(''sub'', email)] None of
                              Inl e \<Rightarrow> (Inl e, d)
                            | Inr refresh_tok \<Rightarrow>
                                (let (u', d') = update_token u (Some refresh_tok) d
                                 in (Inr \<lparr>tm_access_token = access_tok, tm_refresh_token = refresh_tok,
                                           tm_token_type = ''bearer''\<rparr>, d')))))))"

definition confirmed_email_route :: "Auth \<Rightarrow> int \<Rightarrow> token \<Rightarrow> db \<Rightarrow> (error + string) \<times> db" where
  "confirmed_email_route self now tok d =
     (case get_email_from_token self now tok of
        Inl e \<Rightarrow> (Inl e, d)
      | Inr email \<Rightarrow>
          (case find_user_by_email email d of
             None \<Rightarrow> (Inl (HTTPException 400 ''Verification error''), d)
           | Some u \<Rightarrow>
               if u_confirmed (row u) then (Inr ''Your email is already confirmed'', d)
               else
                 (case confirmed_email email now d of
                    (Inl e, d') \<Rightarrow> (Inl e, d')
                  | (Inr x, d') \<Rightarrow> (Inr ''Email confirmed'', d'))))"

definition request_email ::
  "string \<Rightarrow> string \<Rightarrow> send_email_task list \<Rightarrow> db \<Rightarrow> string \<times> send_email_task list" where
  "request_email body_email base_url background_tasks d =
     (case find_user_by_email (JStr body_email) d of
        Some u \<Rightarrow>
          if u_confirmed (row u) then (''Your email is already confirmed'', background_tasks)
          else (''Check your email for confirmation'',
                background_tasks @
                  [\<lparr>t_email = u_email (row u), t_name = u_name (row u), t_host = base_url\<rparr>])
      | None \<Rightarrow> (''Check your email for confirmation'', background_tasks))"

section \<open>The birthday window as the specification words it\<close>

text \<open>
  The window is the eight days from tomorrow to tomorrow plus seven; a day of birth
  falls within it when its month and day are those of one of the eight.
\<close>

definition birthday_in_window :: "date \<Rightarrow> date \<Rightarrow> bool" where
  "birthday_in_window tomorrow born =
     list_ex (\<lambda>k. month (add_days tomorrow k) = month born \<and> day (add_days tomorrow k) = day born)
       [0..<8]"

section \<open>One operation on the database\<close>

text \<open>
  The functions above that can write to the database, as one datatype of calls;
  \<open>run\<close> is the database a call leaves behind.
\<close>

datatype operation =
    Create_user UserModel "string option" int int
  | Update_user int UserModel int user
  | Remove_user int int user
  | Update_token user "token option"
  | Update_avatar jval string int
  | Confirmed_email jval int
  | Create_contact ContactModel int int
  | Update_contact int ContactModel int user
  | Remove_contact int user
  | Signup Auth UserModel "string option" int int string "send_email_task list"
  | Login Auth int string string
  | Refresh_token Auth int token
  | Confirmed_email_route Auth int token

fun run :: "operation \<Rightarrow> db \<Rightarrow> db" where
  "run (Create_user body avatar new_id now) d = snd (create_user body avatar new_id now d)"
| "run (Update_user user_id body now caller) d = snd (update_user user_id body now d caller)"
| "run (Remove_user user_id now caller) d = snd (remove_user user_id now d caller)"
| "run (Update_token u tok) d = snd (update_token u tok d)"
| "run (Update_avatar email url now) d = snd (update_avatar email url now d)"
| "run (Confirmed_email email now) d = snd (confirmed_email email now d)"
| "run (Create_contact body new_id now) d = snd (create_contact body new_id now d)"
| "run (Update_contact contact_id body now caller) d = snd (update_contact contact_id body now d caller)"
| "run (Remove_contact contact_id caller) d = snd (remove_contact contact_id d caller)"
| "run (Signup self body avatar new_id now base_url tasks) d =
     snd (snd (signup self body avatar new_id now base_url tasks d))"
| "run (Login self now username password) d = snd (login self now username password d)"
| "run (Refresh_token self now tok) d = snd (refresh_token self now tok d)"
| "run (Confirmed_email_route self now tok) d = snd (confirmed_email_route self now tok d)"

text \<open>
  No user that was confirmed in \<open>d\<close> is unconfirmed in \<open>d'\<close>; a user is the row
  of a primary key.
\<close>

definition never_reverts :: "db \<Rightarrow> db \<Rightarrow> bool" where
  "never_reverts d d' =
     list_all (\<lambda>x. list_all (\<lambda>y. u_id y = u_id x \<and> u_confirmed x \<longrightarrow> u_confirmed y) (users d'))
       (users d)"

section \<open>Token faults and unknown emails as the specification words them\<close>

text \<open>
  The three faults of a presented token: its signature is invalid (it is no token, or
  another key or algorithm signed it), it has expired, or it is a valid token of
  another scope than the one expected.
\<close>

definition bad_signature :: "Auth \<Rightarrow> token \<Rightarrow> bool" where
  "bad_signature self tok =
     (case tok of
        Malformed s \<Rightarrow> True
      | JWS k a payload \<Rightarrow> \<not> (k = SECRET_KEY self \<and> a = ALGORITHM self))"

definition expired :: "int \<Rightarrow> token \<Rightarrow> bool" where
  "expired now tok =
     (case tok of
        Malformed s \<Rightarrow> False
      | JWS k a payload \<Rightarrow>
          (case map_of payload ''exp'' of
             None \<Rightarrow> False
           | Some (JStr s) \<Rightarrow> False
           | Some (JInt exp) \<Rightarrow> exp < now))"

definition scope_mismatch :: "Auth \<Rightarrow> int \<Rightarrow> string \<Rightarrow> token \<Rightarrow> bool" where
  "scope_mismatch self now expected tok =
     (case jwt_decode tok (SECRET_KEY self) [ALGORITHM self] now of
        Inl e \<Rightarrow> False
      | Inr payload \<Rightarrow>
          (case map_of payload ''scope'' of
             None \<Rightarrow> False
           | Some scope \<Rightarrow> scope \<noteq> JStr expected))"

text \<open>
  Claims handed to the service that pass, at the time of decoding, the checks of
  \<open>jwt.decode\<close> on the registered claims that the service does not write itself
  and that the decoders do not read: \<open>nbf\<close>, \<open>aud\<close>, \<open>jti\<close> and
  \<open>at_hash\<close>.
\<close>

definition accepted_claims :: "claims \<Rightarrow> int \<Rightarrow> bool" where
  "accepted_claims data now =
     (validate_nbf data now = None \<and> validate_aud data = None
      \<and> validate_jti data = None \<and> validate_at_hash data = None)"

text \<open>The email of a request belongs to no user, or to a user that is not confirmed.\<close>

definition unknown_or_unconfirmed :: "string \<Rightarrow> db \<Rightarrow> bool" where
  "unknown_or_unconfirmed body_email d =
     (case find_user_by_email (JStr body_email) d of
        None \<Rightarrow> True
      | Some u \<Rightarrow> \<not> u_confirmed (row u))"

section \<open>Sample data\<close>

text \<open>
  A service instance and a small database for the concrete evaluations below. The
  password context is a stand-in with the contract of passlib's: a hash differs from
  its password and verifies against it.
\<close>

definition sample_auth :: Auth where
  "sample_auth =
     \<lparr>pwd_context = \<lparr>cc_hash = (\<lambda>p. ''$2b$'' @ p), cc_verify = (\<lambda>p h. h = ''$2b$'' @ p)\<rparr>,
      SECRET_KEY = ''secret_key'',
      ALGORITHM = ''HS256''\<rparr>"

definition ann :: user_row where
  "ann = \<lparr>u_id = 1, u_name = ''Ann'', u_last_name = ''Lee'',
           u_day_of_born = \<lparr>year = 1990, month = 1, day = 30\<rparr>,
           u_email = ''ann@example.com'', u_password = ''$2b$password1'',
           u_description = ''first'', u_avatar = None,
           u_created_at = 100, u_updated_at = 100, u_confirmed = True\<rparr>"

definition bob :: user_row where
  "bob = \<lparr>u_id = 2, u_name = ''Bob'', u_last_name = ''Ray'',
           u_day_of_born = \<lparr>year = 1985, month = 3, day = 5\<rparr>,
           u_email = ''bob@example.com'', u_password = ''$2b$password2'',
           u_description = ''second'', u_avatar = None,
           u_created_at = 200, u_updated_at = 200, u_confirmed = False\<rparr>"

definition phone1 :: contact_row where
  "phone1 = \<lparr>c_id = 1, c_phone_number = ''0632428185'', c_created_at = 50,
              c_updated_at = 50, c_user_id = Some 1\<rparr>"

definition sample_db :: db where
  "sample_db = \<lparr>users = [ann, bob], contacts = [phone1]\<rparr>"

definition ann_claims :: claims where
  "ann_claims = [(''sub'', JStr ''ann@example.com'')]"

definition new_profile :: UserModel where
  "new_profile = \<lparr>b_name = ''Anna'', b_last_name = ''Lee'',
                   b_day_of_born = \<lparr>year = 1990, month = 1, day = 30\<rparr>,
                   b_email = ''ann@example.com'', b_description = ''first'',
                   b_password = ''password1'', b_contacts = [1]\<rparr>"

definition carol_body :: UserModel where
  "carol_body = \<lparr>b_name = ''Carol'', b_last_name = ''Fox'',
                  b_day_of_born = \<lparr>year = 2000, month = 7, day = 14\<rparr>,
                  b_email = ''carol@example.com'', b_description = ''third'',
                  b_password = ''password3'', b_contacts = []\<rparr>"

definition bob_claims :: claims where
  "bob_claims = [(''sub'', JStr ''bob@example.com'')]"

text \<open>
  The tokens that the service issues to Ann and to Bob with the default lifetimes:
  the access token and the refresh token of second 1000, the refresh token of second
  500, and the confirmation tokens of second 1000.
\<close>

definition ann_access_token :: token where
  "ann_access_token =
     JWS ''secret_key'' ''HS256''
       [(''sub'', JStr ''ann@example.com''), (''iat'', JInt 1000), (''exp'', JInt 1900),
        (''scope'', JStr ''access_token'')]"

definition ann_refresh_token :: token where
  "ann_refresh_token =
     JWS ''secret_key'' ''HS256''
       [(''sub'', JStr ''ann@example.com''), (''iat'', JInt 1000), (''exp'', JInt 605800),
        (''scope'', JStr ''refresh_token'')]"

definition ann_earlier_refresh_token :: token where
  "ann_earlier_refresh_token =
     JWS ''secret_key'' ''HS256''
       [(''sub'', JStr ''ann@example.com''), (''iat'', JInt 500), (''exp'', JInt 605300),
        (''scope'', JStr ''refresh_token'')]"

definition ann_email_token :: token where
  "ann_email_token =
     JWS ''secret_key'' ''HS256''
       [(''sub'', JStr ''ann@example.com''), (''iat'', JInt 1000), (''exp'', JInt 605800),
        (''scope'', JStr ''email_token'')]"

definition bob_email_token :: token where
  "bob_email_token =
     JWS ''secret_key'' ''HS256''
       [(''sub'', JStr ''bob@example.com''), (''iat'', JInt 1000), (''exp'', JInt 605800),
        (''scope'', JStr ''email_token'')]"

text \<open>
  Claims with a token identifier and a time before which the token is not valid, and
  the tokens that the service issues on them at second 1000 for 60 seconds.
\<close>

definition ann_registered_claims :: claims where
  "ann_registered_claims =
     [(''sub'', JStr ''ann@example.com''), (''jti'', JStr ''a1''), (''nbf'', JInt 900)]"

definition ann_minute_refresh_token :: token where
  "ann_minute_refresh_token =
     JWS ''secret_key'' ''HS256''
       [(''sub'', JStr ''ann@example.com''), (''jti'', JStr ''a1''), (''nbf'', JInt 900),
        (''iat'', JInt 1000), (''exp'', JInt 1060), (''scope'', JStr ''refresh_token'')]"

definition ann_minute_access_token :: token where
  "ann_minute_access_token =
     JWS ''secret_key'' ''HS256''
       [(''sub'', JStr ''ann@example.com''), (''jti'', JStr ''a1''), (''nbf'', JInt 900),
        (''iat'', JInt 1000), (''exp'', JInt 1060), (''scope'', JStr ''access_token'')]"

section \<open>The birthday query\<close>

text \<open>
  C1. The query is to return a user exactly when the month and day of birth fall
  within the window from tomorrow to tomorrow plus seven, also when the window spans
  two months. It does not: on 27 January 2023 the window runs from 28 January to
  4 February, Ann's birthday of 30 January falls within it, and the query returns no
  user. The month of birth is compared with \<open>1 OR 2 = 3\<close>, and the day of birth
  with the bounds 28 and 4.
\<close>

theorem find_next_7_days_birthdays_misses_month_boundary:
  "date_plus_timedelta \<lparr>year = 2023, month = 1, day = 27\<rparr> 1
     = Inr \<lparr>year = 2023, month = 1, day = 28\<rparr>
   \<and> date_plus_timedelta \<lparr>year = 2023, month = 1, day = 28\<rparr> 7
     = Inr \<lparr>year = 2023, month = 2, day = 4\<rparr>
   \<and> birthday_in_window \<lparr>year = 2023, month = 1, day = 28\<rparr> (u_day_of_born ann)
   \<and> find_next_7_days_birthdays \<lparr>year = 2023, month = 1, day = 27\<rparr> sample_db = Inr []"
  by code_simp

text \<open>Days added within a month, and days added into the next month.\<close>

lemma days_in_month_bounds: "28 \<le> days_in_month y m \<and> days_in_month y m \<le> 31"
  by (simp add: days_in_month_def)

lemma valid_next_day: "valid_date d \<Longrightarrow> valid_date (next_day d)"
  using days_in_month_bounds [of "year d" "month d + 1"] days_in_month_bounds [of "year d + 1" 1]
  by (auto simp: valid_date_def next_day_def)

lemma add_days_within_month:
  "day d + int n \<le> days_in_month (year d) (month d) \<Longrightarrow> add_days d n = d\<lparr>day := day d + int n\<rparr>"
proof (induction n arbitrary: d)
  case 0
  then show ?case by simp
next
  case (Suc n)
  then have step: "next_day d = d\<lparr>day := day d + 1\<rparr>" by (simp add: next_day_def)
  have "add_days (d\<lparr>day := day d + 1\<rparr>) n = (d\<lparr>day := day d + 1\<rparr>)\<lparr>day := day (d\<lparr>day := day d + 1\<rparr>) + int n\<rparr>"
    using Suc.prems by (intro Suc.IH) simp
  then show ?case by (simp add: step add.commute add.left_commute)
qed

lemma add_days_add: "add_days d (a + b) = add_days (add_days d a) b"
  by (induction a arbitrary: d) simp_all

lemma add_days_into_next_month:
  assumes "valid_date d" and "days_in_month (year d) (month d) < day d + int n" and "n \<le> 7"
  shows "month (add_days d n) \<noteq> month d
       \<and> day (add_days d n) = day d + int n - days_in_month (year d) (month d)"
proof -
  let ?dim = "days_in_month (year d) (month d)"
  define k where "k = nat (?dim - day d)"
  define r where "r = n - Suc k"
  have kd: "int k = ?dim - day d" using assms(1) by (simp add: k_def valid_date_def)
  have n: "n = k + (Suc 0 + r)" using assms(2) kd by (simp add: r_def)
  have r7: "r \<le> 6" using n assms(3) by simp
  have last: "add_days d k = d\<lparr>day := ?dim\<rparr>"
    using add_days_within_month [of d k] kd by simp
  let ?first = "next_day (d\<lparr>day := ?dim\<rparr>)"
  have first: "?first = (if month d < 12 then d\<lparr>month := month d + 1, day := 1\<rparr>
                         else \<lparr>year = year d + 1, month = 1, day = 1\<rparr>)"
    by (simp add: next_day_def)
  have room: "day ?first + int r \<le> days_in_month (year ?first) (month ?first)"
    using r7 days_in_month_bounds [of "year d" "month d + 1"] days_in_month_bounds [of "year d + 1" 1]
    by (simp add: first)
  have n': "n = k + Suc r" using n by simp
  have "add_days d n = add_days (add_days d k) (Suc r)"
    unfolding n' by (rule add_days_add)
  also have "\<dots> = add_days ?first r"
    by (simp only: last add_days.simps(2))
  also have "\<dots> = ?first\<lparr>day := day ?first + int r\<rparr>"
    by (rule add_days_within_month [OF room])
  finally have res: "add_days d n = ?first\<lparr>day := day ?first + int r\<rparr>" .
  have "month (add_days d n) \<noteq> month d"
    using assms(1) by (simp add: res first valid_date_def)
  moreover have "day (add_days d n) = 1 + int r"
    by (simp add: res first)
  moreover have "int n = int k + 1 + int r"
    using n' by simp
  ultimately show ?thesis using kd by simp
qed

lemma window_within_month:
  assumes "valid_date t" and "month (add_days t 7) = month t" and "k \<le> 7"
  shows "add_days t k = t\<lparr>day := day t + int k\<rparr>"
proof -
  have "day t + 7 \<le> days_in_month (year t) (month t)"
    using add_days_into_next_month [OF assms(1), of 7] assms(2) by force
  with assms(3) show ?thesis by (intro add_days_within_month) simp
qed

lemma birthday_in_window_within_month:
  assumes "valid_date t" and "month (add_days t 7) = month t"
  shows "birthday_in_window t born \<longleftrightarrow>
           month born = month t \<and> day t \<le> day born \<and> day born \<le> day (add_days t 7)"
proof -
  have each: "add_days t k = t\<lparr>day := day t + int k\<rparr>" if "k < 8" for k
    using window_within_month [OF assms, of k] that by simp
  have seventh: "day (add_days t 7) = day t + 7"
    using window_within_month [OF assms, of 7] by simp
  have "birthday_in_window t born \<longleftrightarrow> (\<exists>k<8. month t = month born \<and> day t + int k = day born)"
    using each by (auto simp: birthday_in_window_def list_ex_iff)
  also have "\<dots> \<longleftrightarrow> month born = month t \<and> day t \<le> day born \<and> day born \<le> day t + 7"
  proof
    assume "\<exists>k<8. month t = month born \<and> day t + int k = day born"
    then show "month born = month t \<and> day t \<le> day born \<and> day born \<le> day t + 7" by auto
  next
    assume a: "month born = month t \<and> day t \<le> day born \<and> day born \<le> day t + 7"
    then have "nat (day born - day t) < 8 \<and> month t = month born
        \<and> day t + int (nat (day born - day t)) = day born"
      by auto
    then show "\<exists>k<8. month t = month born \<and> day t + int k = day born" by blast
  qed
  finally show ?thesis by (simp add: seventh)
qed

text \<open>
  What the query returns on every day: the users whose birthday falls within the
  window when the window lies within one month, and no user at all when it spans two
  months, since the day of tomorrow is then greater than the day a week later.
\<close>

lemma find_next_7_days_birthdays_by_window:
  assumes "valid_date today"
    and "date_plus_timedelta today 1 = Inr t"
    and "date_plus_timedelta t 7 = Inr s"
  shows "find_next_7_days_birthdays today d =
           (if month s = month t
            then Inr (map load (filter (\<lambda>x. birthday_in_window t (u_day_of_born x)) (users d)))
            else Inr [])"
proof -
  from assms(2) have t: "t = add_days today 1"
    by (simp add: date_plus_timedelta_def Let_def split: if_splits)
  from assms(3) have s: "s = add_days t 7"
    by (simp add: date_plus_timedelta_def Let_def split: if_splits)
  have vt: "valid_date t" using valid_next_day [OF assms(1)] by (simp add: t)
  show ?thesis
  proof (cases "month s = month t")
    case True
    then have same: "month (add_days t 7) = month t" by (simp add: s)
    have "filter (\<lambda>x. month (u_day_of_born x) = (month t OR month s)
                    \<and> day t \<le> day (u_day_of_born x) \<and> day (u_day_of_born x) \<le> day s) (users d)
        = filter (\<lambda>x. birthday_in_window t (u_day_of_born x)) (users d)"
      using True by (intro filter_cong refl) (simp add: birthday_in_window_within_month [OF vt same] s)
    then show ?thesis using True assms(2,3) by (simp add: find_next_7_days_birthdays_def)
  next
    case False
    have "days_in_month (year t) (month t) < day t + 7"
    proof (rule ccontr)
      assume "\<not> days_in_month (year t) (month t) < day t + 7"
      then have "day t + int 7 \<le> days_in_month (year t) (month t)" by simp
      from add_days_within_month [OF this] have "month (add_days t 7) = month t" by simp
      with False show False by (simp add: s)
    qed
    from add_days_into_next_month [OF vt, of 7] this
    have "day s = day t + 7 - days_in_month (year t) (month t)" by (simp add: s)
    then have "day s < day t" using days_in_month_bounds [of "year t" "month t"] by simp
    then have "filter (\<lambda>x. month (u_day_of_born x) = (month t OR month s)
                    \<and> day t \<le> day (u_day_of_born x) \<and> day (u_day_of_born x) \<le> day s) (users d) = []"
      by (auto simp: filter_empty_conv)
    then show ?thesis using False assms(2,3) by (simp add: find_next_7_days_birthdays_def)
  qed
qed

section \<open>Issuing and decoding tokens\<close>

lemmas jose_defs =
  jwt_encode_def validate_claims_def validate_iat_def validate_nbf_def validate_exp_def
  validate_aud_def validate_sub_def validate_jti_def validate_at_hash_def update_conv'

lemma issued_claims:
  "map_of (dict_update data [(''iat'', JInt t0), (''exp'', JInt x), (''scope'', JStr s)]) ''exp''
     = Some (JInt x)"
  "map_of (dict_update data [(''iat'', JInt t0), (''exp'', JInt x), (''scope'', JStr s)]) ''scope''
     = Some (JStr s)"
  "map_of (dict_update data [(''iat'', JInt t0), (''exp'', JInt x), (''scope'', JStr s)]) ''sub''
     = map_of data ''sub''"
  by (simp_all add: update_conv')

lemma decode_issued:
  assumes "map_of data ''sub'' = Some (JStr e)" and "accepted_claims data t"
  shows "jwt_decode
           (jwt_encode (dict_update data [(''iat'', JInt t0), (''exp'', JInt x), (''scope'', JStr s)])
              key alg) key [alg] t =
         (if t \<le> x
          then Inr (dict_update data [(''iat'', JInt t0), (''exp'', JInt x), (''scope'', JStr s)])
          else Inl ExpiredSignatureError)"
  using assms by (simp add: jose_defs accepted_claims_def)

text \<open>
  The expiry that the service computes: the time of issue plus the lifetime, when
  that is a datetime, and \<open>OverflowError\<close> when it is not.
\<close>

lemma expiry_of_lifetime:
  assumes "in_datetime_range t0" and "s \<noteq> 0"
  shows "(case timedelta_seconds s of Inl e \<Rightarrow> Inl e | Inr delta \<Rightarrow> datetime_plus t0 delta)
           = (if in_datetime_range (t0 + s) then Inr (t0 + s) else Inl OverflowError)"
  using assms by (simp add: timedelta_seconds_def datetime_plus_def in_datetime_range_def)

lemma decode_refresh_token_issued:
  assumes "map_of data ''sub'' = Some (JStr e)" and "accepted_claims data t"
  shows "decode_refresh_token self t
           (jwt_encode
              (dict_update data
                 [(''iat'', JInt t0), (''exp'', JInt x), (''scope'', JStr ''refresh_token'')])
              (SECRET_KEY self) (ALGORITHM self)) =
         (if t \<le> x then Inr (JStr e)
          else Inl (HTTPException 401 ''Could not validate credentials''))"
  using assms
  by (simp add: decode_refresh_token_def decode_issued issued_claims del: dict_update.simps)

lemma get_current_user_issued:
  assumes "map_of data ''sub'' = Some (JStr e)" and "accepted_claims data t"
  shows "get_current_user self t
           (jwt_encode
              (dict_update data
                 [(''iat'', JInt t0), (''exp'', JInt x), (''scope'', JStr ''access_token'')])
              (SECRET_KEY self) (ALGORITHM self)) d =
         (if t \<le> x
          then (case find_user_by_email (JStr e) d of
                  None \<Rightarrow> Inl (HTTPException 401 ''Could not validate credentials'')
                | Some u \<Rightarrow> Inr u)
          else Inl (HTTPException 401 ''Could not validate credentials''))"
  using assms
  by (simp add: get_current_user_def decode_issued issued_claims credentials_exception_def
      del: dict_update.simps split: option.splits)

text \<open>
  A lifetime of zero is taken for no lifetime at all by \<open>if expires_delta:\<close>, and
  the token gets the default lifetime; the docstrings give the default to a lifetime
  that is not provided. The round trip below says nothing of a lifetime of zero.
\<close>

lemma zero_lifetime_is_no_lifetime:
  "create_refresh_token self now data (Some 0) = create_refresh_token self now data None"
  "create_access_token self now data (Some 0) = create_access_token self now data None"
  by (simp_all add: create_refresh_token_def create_access_token_def)

text \<open>
  C6, as the code has it. The claims hold a string \<open>sub\<close> (the decoders return
  \<open>sub\<close> alone, not the claims) and pass the checks of \<open>jwt.decode\<close> on
  \<open>nbf\<close>, \<open>aud\<close>, \<open>jti\<close> and \<open>at_hash\<close> at the time of decoding; the
  lifetime is none, which stands for the default of 7 days for a refresh token and of
  15 minutes for an access token, or a number of seconds other than zero. Issuing
  raises \<open>OverflowError\<close> exactly when the time of issue plus the lifetime is no
  datetime. Otherwise a refresh token decodes to its \<open>sub\<close>, unchanged, up to and
  including the second it expires and fails with 401 after it; an access token
  resolves to the user of email \<open>sub\<close> over the same span (401 when there is
  none) and fails with 401 after it.
\<close>

theorem token_round_trip:
  assumes "map_of data ''sub'' = Some (JStr e)"
    and "accepted_claims data t"
    and "ttl \<noteq> Some 0"
    and "in_datetime_range t0"
  shows "(case create_refresh_token self t0 data ttl of
            Inl err \<Rightarrow>
              err = OverflowError
              \<and> \<not> in_datetime_range (t0 + (case ttl of None \<Rightarrow> 7 * 86400 | Some s \<Rightarrow> s))
          | Inr tok \<Rightarrow>
              in_datetime_range (t0 + (case ttl of None \<Rightarrow> 7 * 86400 | Some s \<Rightarrow> s))
              \<and> decode_refresh_token self t tok =
                  (if t \<le> t0 + (case ttl of None \<Rightarrow> 7 * 86400 | Some s \<Rightarrow> s)
                   then Inr (JStr e)
                   else Inl (HTTPException 401 ''Could not validate credentials'')))
       \<and> (case create_access_token self t0 data ttl of
            Inl err \<Rightarrow>
              err = OverflowError
              \<and> \<not> in_datetime_range (t0 + (case ttl of None \<Rightarrow> 15 * 60 | Some s \<Rightarrow> s))
          | Inr tok \<Rightarrow>
              in_datetime_range (t0 + (case ttl of None \<Rightarrow> 15 * 60 | Some s \<Rightarrow> s))
              \<and> get_current_user self t tok d =
                  (if t \<le> t0 + (case ttl of None \<Rightarrow> 15 * 60 | Some s \<Rightarrow> s)
                   then (case find_user_by_email (JStr e) d of
                           None \<Rightarrow> Inl (HTTPException 401 ''Could not validate credentials'')
                         | Some u \<Rightarrow> Inr u)
                   else Inl (HTTPException 401 ''Could not validate credentials'')))"
proof (cases ttl)
  case None
  show ?thesis
    unfolding None
    by (simp add: create_refresh_token_def create_access_token_def datetime_plus_def
        decode_refresh_token_issued [OF assms(1,2)] get_current_user_issued [OF assms(1,2)]
        del: dict_update.simps)
next
  case (Some s)
  with assms(3) have s: "s \<noteq> 0" by simp
  show ?thesis
    unfolding Some
    by (simp add: create_refresh_token_def create_access_token_def s
        expiry_of_lifetime [OF assms(4) s]
        decode_refresh_token_issued [OF assms(1,2)] get_current_user_issued [OF assms(1,2)]
        del: dict_update.simps)
qed

theorem token_round_trip_witness:
  "map_of ann_registered_claims ''sub'' = Some (JStr ''ann@example.com'')
   \<and> accepted_claims ann_registered_claims 1060
   \<and> accepted_claims ann_registered_claims 1061
   \<and> Some 60 \<noteq> Some (0::int)
   \<and> in_datetime_range 1000
   \<and> create_refresh_token sample_auth 1000 ann_registered_claims (Some 60)
       = Inr ann_minute_refresh_token
   \<and> decode_refresh_token sample_auth 1060 ann_minute_refresh_token
       = Inr (JStr ''ann@example.com'')
   \<and> decode_refresh_token sample_auth 1061 ann_minute_refresh_token
       = Inl (HTTPException 401 ''Could not validate credentials'')
   \<and> create_access_token sample_auth 1000 ann_registered_claims (Some 60)
       = Inr ann_minute_access_token
   \<and> get_current_user sample_auth 1060 ann_minute_access_token sample_db = Inr (load ann)
   \<and> get_current_user sample_auth 1061 ann_minute_access_token sample_db
       = Inl (HTTPException 401 ''Could not validate credentials'')"
proof -
  have sub: "map_of ann_registered_claims ''sub'' = Some (JStr ''ann@example.com'')"
    by (simp add: ann_registered_claims_def)
  have acc0: "accepted_claims ann_registered_claims 1060"
    and acc1: "accepted_claims ann_registered_claims 1061"
    by (simp_all add: accepted_claims_def ann_registered_claims_def jose_defs)
  have ttl: "Some 60 \<noteq> Some (0::int)" by simp
  have t0: "in_datetime_range 1000" by (simp add: in_datetime_range_def)
  have found: "find_user_by_email (JStr ''ann@example.com'') sample_db = Some (load ann)"
    by (simp add: find_user_by_email_def sample_db_def ann_def)
  have r: "create_refresh_token sample_auth 1000 ann_registered_claims (Some 60)
       = Inr ann_minute_refresh_token"
    by (simp add: create_refresh_token_def timedelta_seconds_def datetime_plus_def
        in_datetime_range_def sample_auth_def ann_registered_claims_def
        ann_minute_refresh_token_def jwt_encode_def)
  have a: "create_access_token sample_auth 1000 ann_registered_claims (Some 60)
       = Inr ann_minute_access_token"
    by (simp add: create_access_token_def timedelta_seconds_def datetime_plus_def
        in_datetime_range_def sample_auth_def ann_registered_claims_def
        ann_minute_access_token_def jwt_encode_def)
  from token_round_trip [OF sub acc0 ttl t0, where self = sample_auth and d = sample_db]
  have c0: "decode_refresh_token sample_auth 1060 ann_minute_refresh_token
       = Inr (JStr ''ann@example.com'')"
    and c1: "get_current_user sample_auth 1060 ann_minute_access_token sample_db = Inr (load ann)"
    by (simp_all add: r a found)
  from token_round_trip [OF sub acc1 ttl t0, where self = sample_auth and d = sample_db]
  have c2: "decode_refresh_token sample_auth 1061 ann_minute_refresh_token
       = Inl (HTTPException 401 ''Could not validate credentials'')"
    and c3: "get_current_user sample_auth 1061 ann_minute_access_token sample_db
       = Inl (HTTPException 401 ''Could not validate credentials'')"
    by (simp_all add: r a)
  from sub acc0 acc1 ttl t0 r a c0 c1 c2 c3 show ?thesis by blast
qed

text \<open>
  The claim as stated, for every claims map and every lifetime, fails by the design
  of the service and of the library. Claims whose \<open>sub\<close> is a number are signed
  into a token that \<open>jwt.decode\<close> refuses one second later, well before the 60
  seconds are over; and for a lifetime of 1000000000000 seconds no token is issued at
  all.
\<close>

theorem token_round_trip_not_for_every_claims_and_ttl:
  "create_refresh_token sample_auth 1000 [(''sub'', JInt 5)] (Some 60)
     = Inr (JWS ''secret_key'' ''HS256''
              [(''sub'', JInt 5), (''iat'', JInt 1000), (''exp'', JInt 1060),
               (''scope'', JStr ''refresh_token'')])
   \<and> decode_refresh_token sample_auth 1001
       (JWS ''secret_key'' ''HS256''
          [(''sub'', JInt 5), (''iat'', JInt 1000), (''exp'', JInt 1060),
           (''scope'', JStr ''refresh_token'')])
     = Inl (HTTPException 401 ''Could not validate credentials'')
   \<and> create_refresh_token sample_auth 1000 ann_claims (Some 1000000000000) = Inl OverflowError
   \<and> create_access_token sample_auth 1000 ann_claims (Some 1000000000000) = Inl OverflowError"
  by (simp add: decode_refresh_token_def create_refresh_token_def create_access_token_def
      timedelta_seconds_def datetime_plus_def in_datetime_range_def
      sample_auth_def ann_claims_def jose_defs)

text \<open>
  The faults of a token that \<open>jwt.decode\<close> itself rejects.
\<close>

lemma first_error_Some: "Some e \<in> set checks \<Longrightarrow> \<exists>e'. first_error checks = Some e'"
  by (induction checks rule: first_error.induct) auto

lemma rejected_by_jwt_decode:
  assumes "bad_signature self tok \<or> expired now tok"
  shows "\<exists>e. jwt_decode tok (SECRET_KEY self) [ALGORITHM self] now = Inl e"
proof (cases tok)
  case (Malformed s)
  then show ?thesis by simp
next
  case (JWS k a payload)
  show ?thesis
  proof (cases "k = SECRET_KEY self \<and> a = ALGORITHM self")
    case False
    then show ?thesis using JWS by auto
  next
    case True
    then have "expired now tok" using assms JWS by (simp add: bad_signature_def)
    then have "validate_exp payload now = Some ExpiredSignatureError"
      using JWS by (auto simp: expired_def validate_exp_def split: option.splits jval.splits)
    then have "\<exists>e. validate_claims payload now = Some e"
      unfolding validate_claims_def by (intro first_error_Some [of ExpiredSignatureError]) simp
    then show ?thesis using JWS True by auto
  qed
qed

text \<open>
  C7, as the code has it. \<open>get_current_user\<close> answers an invalid signature, an
  expired token and a token of another scope with one and the same response, 401
  \<open>Could not validate credentials\<close>. \<open>decode_refresh_token\<close> answers all three
  with status 401, with the detail \<open>Invalid scope for token\<close> for the scope and
  \<open>Could not validate credentials\<close> for the other two. \<open>get_email_from_token\<close>
  answers a token of another scope with 401 and an invalid signature or an expired
  token with 422.
\<close>

theorem token_faults:
  "((bad_signature self tok \<or> expired now tok \<or> scope_mismatch self now ''access_token'' tok)
      \<longrightarrow> get_current_user self now tok d = Inl (HTTPException 401 ''Could not validate credentials''))
   \<and> ((bad_signature self tok \<or> expired now tok)
      \<longrightarrow> decode_refresh_token self now tok = Inl (HTTPException 401 ''Could not validate credentials'')
        \<and> get_email_from_token self now tok = Inl (HTTPException 422 ''Invalid token for email verification''))
   \<and> (scope_mismatch self now ''refresh_token'' tok
      \<longrightarrow> decode_refresh_token self now tok = Inl (HTTPException 401 ''Invalid scope for token''))
   \<and> (scope_mismatch self now ''email_token'' tok
      \<longrightarrow> get_email_from_token self now tok = Inl (HTTPException 401 ''Invalid scope for token''))"
proof (intro conjI impI)
  assume a: "bad_signature self tok \<or> expired now tok \<or> scope_mismatch self now ''access_token'' tok"
  show "get_current_user self now tok d = Inl (HTTPException 401 ''Could not validate credentials'')"
  proof (cases "bad_signature self tok \<or> expired now tok")
    case True
    from rejected_by_jwt_decode [OF this] show ?thesis
      by (auto simp: get_current_user_def credentials_exception_def)
  next
    case False
    with a have "scope_mismatch self now ''access_token'' tok" by blast
    then show ?thesis
      by (auto simp: scope_mismatch_def get_current_user_def credentials_exception_def
          split: sum.splits option.splits)
  qed
next
  assume a: "bad_signature self tok \<or> expired now tok"
  from rejected_by_jwt_decode [OF a]
  show "decode_refresh_token self now tok = Inl (HTTPException 401 ''Could not validate credentials'')"
    by (auto simp: decode_refresh_token_def)
next
  assume a: "bad_signature self tok \<or> expired now tok"
  from rejected_by_jwt_decode [OF a]
  show "get_email_from_token self now tok = Inl (HTTPException 422 ''Invalid token for email verification'')"
    by (auto simp: get_email_from_token_def)
next
  assume "scope_mismatch self now ''refresh_token'' tok"
  then show "decode_refresh_token self now tok = Inl (HTTPException 401 ''Invalid scope for token'')"
    by (auto simp: scope_mismatch_def decode_refresh_token_def split: sum.splits option.splits)
next
  assume "scope_mismatch self now ''email_token'' tok"
  then show "get_email_from_token self now tok = Inl (HTTPException 401 ''Invalid scope for token'')"
    by (auto simp: scope_mismatch_def get_email_from_token_def split: sum.splits option.splits)
qed

theorem token_faults_witness:
  "create_access_token sample_auth 1000 ann_claims None = Inr ann_access_token
   \<and> create_email_token sample_auth 1000 ann_claims = Inr ann_email_token
   \<and> scope_mismatch sample_auth 1001 ''email_token'' ann_access_token
   \<and> get_email_from_token sample_auth 1001 ann_access_token
       = Inl (HTTPException 401 ''Invalid scope for token'')
   \<and> expired 700000 ann_email_token
   \<and> get_email_from_token sample_auth 700000 ann_email_token
       = Inl (HTTPException 422 ''Invalid token for email verification'')
   \<and> bad_signature sample_auth (Malformed ''abc'')
   \<and> decode_refresh_token sample_auth 1001 (Malformed ''abc'')
       = Inl (HTTPException 401 ''Could not validate credentials'')
   \<and> get_current_user sample_auth 1001 (Malformed ''abc'') sample_db
       = Inl (HTTPException 401 ''Could not validate credentials'')"
proof -
  have i1: "create_access_token sample_auth 1000 ann_claims None = Inr ann_access_token"
    by (simp add: create_access_token_def datetime_plus_def in_datetime_range_def
        sample_auth_def ann_claims_def ann_access_token_def jwt_encode_def)
  have i2: "create_email_token sample_auth 1000 ann_claims = Inr ann_email_token"
    by (simp add: create_email_token_def datetime_plus_def in_datetime_range_def
        sample_auth_def ann_claims_def ann_email_token_def jwt_encode_def)
  have h1: "scope_mismatch sample_auth 1001 ''email_token'' ann_access_token"
    by (simp add: scope_mismatch_def ann_access_token_def sample_auth_def jose_defs)
  have h2: "expired 700000 ann_email_token"
    by (simp add: expired_def ann_email_token_def jose_defs)
  have h3: "bad_signature sample_auth (Malformed ''abc'')"
    by (simp add: bad_signature_def)
  from h1 token_faults [of sample_auth ann_access_token 1001]
  have c1: "get_email_from_token sample_auth 1001 ann_access_token
       = Inl (HTTPException 401 ''Invalid scope for token'')"
    by blast
  from h2 token_faults [of sample_auth ann_email_token 700000]
  have c2: "get_email_from_token sample_auth 700000 ann_email_token
       = Inl (HTTPException 422 ''Invalid token for email verification'')"
    by blast
  from h3 token_faults [of sample_auth "Malformed ''abc''" 1001 sample_db]
  have c3: "decode_refresh_token sample_auth 1001 (Malformed ''abc'')
       = Inl (HTTPException 401 ''Could not validate credentials'')"
    and c4: "get_current_user sample_auth 1001 (Malformed ''abc'') sample_db
       = Inl (HTTPException 401 ''Could not validate credentials'')"
    by blast+
  from i1 i2 h1 h2 h3 c1 c2 c3 c4 show ?thesis by blast
qed

text \<open>
  The claim as stated fails for \<open>get_email_from_token\<close>: an access token
  presented for confirmation is refused with 401, an expired confirmation token with
  422.
\<close>

theorem get_email_from_token_two_statuses:
  "create_access_token sample_auth 1000 ann_claims None = Inr ann_access_token
   \<and> create_email_token sample_auth 1000 ann_claims = Inr ann_email_token
   \<and> get_email_from_token sample_auth 1001 ann_access_token
     = Inl (HTTPException 401 ''Invalid scope for token'')
   \<and> get_email_from_token sample_auth 700000 ann_email_token
     = Inl (HTTPException 422 ''Invalid token for email verification'')
   \<and> status_code (HTTPException 401 ''Invalid scope for token'')
     \<noteq> status_code (HTTPException 422 ''Invalid token for email verification'')"
  by (simp add: get_email_from_token_def create_access_token_def create_email_token_def
      datetime_plus_def in_datetime_range_def ann_access_token_def ann_email_token_def
      sample_auth_def ann_claims_def jose_defs)

section \<open>Refreshing tokens\<close>

text \<open>
  The handler reads \<open>refresh_token\<close> from an instance that a query has just
  loaded, and no loaded instance has that attribute: whatever token decodes, the
  comparison with the stored token is never reached, and the database stays as it is.
\<close>

lemma refresh_token_never_compares:
  "refresh_token self now tok d =
     (case decode_refresh_token self now tok of
        Inl e \<Rightarrow> (Inl e, d)
      | Inr email \<Rightarrow> (Inl (AttributeError ''refresh_token''), d))"
  by (simp add: refresh_token_def find_user_by_email_def load_def split: sum.splits option.splits)

text \<open>
  C2. A refresh token that decodes to the email of a user and is not the one stored
  for that user is to be refused with 401, and the stored token cleared. The handler
  does not do so. Ann logs in at 1000 and is issued a refresh token; the token issued at
  500 decodes to her email and differs from it. Presented at 1001 it raises
  \<open>AttributeError\<close> (status 500), and so does the token of the login itself: the
  login has set \<open>refresh_token\<close> on its own instance, and \<open>models.py\<close> maps no
  column that would keep it.
\<close>

theorem refresh_token_raises_attribute_error:
  "create_access_token sample_auth 1000 ann_claims None = Inr ann_access_token
   \<and> create_refresh_token sample_auth 1000 ann_claims None = Inr ann_refresh_token
   \<and> create_refresh_token sample_auth 500 ann_claims None = Inr ann_earlier_refresh_token
   \<and> login sample_auth 1000 ''ann@example.com'' ''password1'' sample_db =
     (Inr \<lparr>tm_access_token = ann_access_token,
           tm_refresh_token = ann_refresh_token,
           tm_token_type = ''bearer''\<rparr>, sample_db)
   \<and> decode_refresh_token sample_auth 1001 ann_earlier_refresh_token
       = Inr (JStr ''ann@example.com'')
   \<and> ann_earlier_refresh_token \<noteq> ann_refresh_token
   \<and> refresh_token sample_auth 1001 ann_earlier_refresh_token sample_db
       = (Inl (AttributeError ''refresh_token''), sample_db)
   \<and> refresh_token sample_auth 1001 ann_refresh_token sample_db
       = (Inl (AttributeError ''refresh_token''), sample_db)
   \<and> status_code (AttributeError ''refresh_token'') = 500"
  by (simp add: login_def refresh_token_def decode_refresh_token_def create_refresh_token_def
      create_access_token_def datetime_plus_def in_datetime_range_def
      ann_access_token_def ann_refresh_token_def ann_earlier_refresh_token_def
      update_token_def verify_password_def
      find_user_by_email_def load_def sample_db_def ann_def bob_def sample_auth_def ann_claims_def
      jose_defs)

section \<open>Asking for the confirmation mail again\<close>

text \<open>
  C8, as the code has it. An email that belongs to no user and an email of a user that
  is not confirmed get the same acknowledgment, so the two runs cannot be told apart
  by their response; the email of a confirmed user gets a message of its own. The
  confirmation mail is queued for the user that is not confirmed, after the tasks
  already queued, and for nobody else.
\<close>

theorem request_email_acknowledgment:
  "(unknown_or_unconfirmed e1 d1 \<and> unknown_or_unconfirmed e2 d2 \<longrightarrow>
      fst (request_email e1 h1 ts1 d1) = ''Check your email for confirmation''
      \<and> fst (request_email e2 h2 ts2 d2) = fst (request_email e1 h1 ts1 d1))
   \<and> (\<not> unknown_or_unconfirmed e1 d1 \<longrightarrow>
      request_email e1 h1 ts1 d1 = (''Your email is already confirmed'', ts1))
   \<and> (find_user_by_email (JStr e1) d1 = None \<longrightarrow> snd (request_email e1 h1 ts1 d1) = ts1)
   \<and> (find_user_by_email (JStr e1) d1 = Some u \<and> \<not> u_confirmed (row u) \<longrightarrow>
      snd (request_email e1 h1 ts1 d1)
        = ts1 @ [\<lparr>t_email = u_email (row u), t_name = u_name (row u), t_host = h1\<rparr>])"
  by (auto simp: unknown_or_unconfirmed_def request_email_def split: option.splits)

theorem request_email_acknowledgment_witness:
  "unknown_or_unconfirmed ''bob@example.com'' sample_db
   \<and> unknown_or_unconfirmed ''nobody@example.com'' sample_db
   \<and> \<not> unknown_or_unconfirmed ''ann@example.com'' sample_db
   \<and> find_user_by_email (JStr ''nobody@example.com'') sample_db = None
   \<and> find_user_by_email (JStr ''bob@example.com'') sample_db = Some (load bob)
   \<and> \<not> u_confirmed (row (load bob))
   \<and> fst (request_email ''bob@example.com'' ''http://host/'' [] sample_db)
       = ''Check your email for confirmation''
   \<and> fst (request_email ''nobody@example.com'' ''http://host/'' [] sample_db)
       = fst (request_email ''bob@example.com'' ''http://host/'' [] sample_db)
   \<and> request_email ''ann@example.com'' ''http://host/'' [] sample_db
       = (''Your email is already confirmed'', [])
   \<and> snd (request_email ''nobody@example.com'' ''http://host/'' [] sample_db) = []
   \<and> snd (request_email ''bob@example.com'' ''http://host/'' [] sample_db)
       = [\<lparr>t_email = ''bob@example.com'', t_name = ''Bob'', t_host = ''http://host/''\<rparr>]"
proof -
  have h1: "unknown_or_unconfirmed ''bob@example.com'' sample_db"
    and h2: "unknown_or_unconfirmed ''nobody@example.com'' sample_db"
    and h3: "\<not> unknown_or_unconfirmed ''ann@example.com'' sample_db"
    by (simp_all add: unknown_or_unconfirmed_def find_user_by_email_def sample_db_def
        ann_def bob_def load_def)
  have h4: "find_user_by_email (JStr ''nobody@example.com'') sample_db = None"
    and h5: "find_user_by_email (JStr ''bob@example.com'') sample_db = Some (load bob)"
    and h6: "\<not> u_confirmed (row (load bob))"
    by (simp_all add: find_user_by_email_def sample_db_def ann_def bob_def load_def)
  have task: "\<lparr>t_email = u_email (row (load bob)), t_name = u_name (row (load bob)),
                t_host = ''http://host/''\<rparr>
              = \<lparr>t_email = ''bob@example.com'', t_name = ''Bob'', t_host = ''http://host/''\<rparr>"
    by (simp add: bob_def load_def)
  from h1 h2
    request_email_acknowledgment [where ?e1.0 = "''bob@example.com''" and ?d1.0 = sample_db
      and ?e2.0 = "''nobody@example.com''" and ?d2.0 = sample_db
      and ?h1.0 = "''http://host/''" and ?ts1.0 = "[]"
      and ?h2.0 = "''http://host/''" and ?ts2.0 = "[]" and u = "load bob"]
  have c1: "fst (request_email ''bob@example.com'' ''http://host/'' [] sample_db)
       = ''Check your email for confirmation''"
    and c2: "fst (request_email ''nobody@example.com'' ''http://host/'' [] sample_db)
       = fst (request_email ''bob@example.com'' ''http://host/'' [] sample_db)"
    by blast+
  from h3
    request_email_acknowledgment [where ?e1.0 = "''ann@example.com''" and ?d1.0 = sample_db
      and ?e2.0 = "''nobody@example.com''" and ?d2.0 = sample_db
      and ?h1.0 = "''http://host/''" and ?ts1.0 = "[]"
      and ?h2.0 = "''http://host/''" and ?ts2.0 = "[]" and u = "load bob"]
  have c3: "request_email ''ann@example.com'' ''http://host/'' [] sample_db
       = (''Your email is already confirmed'', [])"
    by blast
  from h4
    request_email_acknowledgment [where ?e1.0 = "''nobody@example.com''" and ?d1.0 = sample_db
      and ?e2.0 = "''nobody@example.com''" and ?d2.0 = sample_db
      and ?h1.0 = "''http://host/''" and ?ts1.0 = "[]"
      and ?h2.0 = "''http://host/''" and ?ts2.0 = "[]" and u = "load bob"]
  have c4: "snd (request_email ''nobody@example.com'' ''http://host/'' [] sample_db) = []"
    by blast
  from h5 h6
    request_email_acknowledgment [where ?e1.0 = "''bob@example.com''" and ?d1.0 = sample_db
      and ?e2.0 = "''nobody@example.com''" and ?d2.0 = sample_db
      and ?h1.0 = "''http://host/''" and ?ts1.0 = "[]"
      and ?h2.0 = "''http://host/''" and ?ts2.0 = "[]" and u = "load bob"]
  have "snd (request_email ''bob@example.com'' ''http://host/'' [] sample_db)
       = [] @ [\<lparr>t_email = u_email (row (load bob)), t_name = u_name (row (load bob)),
                 t_host = ''http://host/''\<rparr>]"
    by blast
  with task
  have c5: "snd (request_email ''bob@example.com'' ''http://host/'' [] sample_db)
       = [\<lparr>t_email = ''bob@example.com'', t_name = ''Bob'', t_host = ''http://host/''\<rparr>]"
    by simp
  from h1 h2 h3 h4 h5 h6 c1 c2 c3 c4 c5 show ?thesis by blast
qed

text \<open>
  The claim as stated fails for a confirmed user: the response tells Ann's registered
  email from an email nobody has registered.
\<close>

theorem request_email_tells_confirmed_from_unknown:
  "fst (request_email ''ann@example.com'' ''http://host/'' [] sample_db) = ''Your email is already confirmed''
   \<and> fst (request_email ''nobody@example.com'' ''http://host/'' [] sample_db) = ''Check your email for confirmation''"
  by (simp add: request_email_def find_user_by_email_def sample_db_def ann_def bob_def load_def)

section \<open>Rows and keys\<close>

text \<open>
  The primary key of a table is the hypothesis \<open>distinct (map u_id (users d))\<close>
  (or \<open>c_id\<close>, \<open>contacts\<close>): under it a key finds its own row.
\<close>

lemma find_in_set: "find P xs = Some r \<Longrightarrow> r \<in> set xs \<and> P r"
  by (induction xs) (auto split: if_splits)

lemma same_key_same_row:
  assumes "distinct (map u_id xs)" and "x \<in> set xs" and "y \<in> set xs" and "u_id x = u_id y"
  shows "x = y"
  using assms by (meson distinct_map inj_onD)

lemma find_by_key:
  assumes "distinct (map u_id xs)" and "r \<in> set xs"
  shows "find (\<lambda>x. u_id x = u_id r) xs = Some r"
  using assms
proof (induction xs)
  case Nil
  then show ?case by simp
next
  case (Cons a xs)
  show ?case
  proof (cases "a = r")
    case True
    then show ?thesis by simp
  next
    case False
    with Cons.prems have "r \<in> set xs" and "u_id a \<noteq> u_id r" by auto
    with Cons show ?thesis by simp
  qed
qed

lemma commit_user_stored:
  assumes "distinct (map u_id (users d))" and "r \<in> set (users d)" and "u_id (row u) = u_id r"
  shows "commit_user now u d =
           (if row u = r then Inr d
            else if u_email (row u) \<noteq> u_email r \<and> email_taken (row u) d then Inl IntegrityError
            else Inr (d\<lparr>users :=
                   map (\<lambda>x. if u_id x = u_id r then (row u)\<lparr>u_updated_at := now\<rparr> else x) (users d)\<rparr>))"
  using find_by_key [OF assms(1,2)] assms(3) by (simp add: commit_user_def)

lemma list_all2_map_self:
  "list_all2 P xs (map f xs) \<longleftrightarrow> (\<forall>x\<in>set xs. P x (f x))"
  by (simp add: list_all2_map2 list_all2_same)

lemma find_none_no_row: "find P xs = None \<Longrightarrow> \<not> list_ex P xs"
  by (simp add: find_None_iff list_ex_iff)

lemma found_by_email:
  assumes "find_user_by_email email d = Some u"
  shows "row u \<in> set (users d) \<and> JStr (u_email (row u)) = email \<and> u = load (row u)"
proof -
  from assms obtain r where r: "find (\<lambda>x. JStr (u_email x) = email) (users d) = Some r" "u = load r"
    by (auto simp: find_user_by_email_def)
  from find_in_set [OF r(1)] r(2) show ?thesis by (simp add: load_def)
qed

section \<open>Contacts and their owners\<close>

lemma find_none_other_owner:
  assumes "distinct (map c_id cs)" and "c \<in> set cs" and "c_user_id c \<noteq> Some uid"
  shows "find (\<lambda>x. c_id x = c_id c \<and> c_user_id x = Some uid) cs = None"
proof -
  have "x = c" if "x \<in> set cs" and "c_id x = c_id c" for x
    using that assms(1,2) by (meson distinct_map inj_onD)
  then show ?thesis using assms(3) by (auto simp: find_None_iff)
qed

text \<open>
  C5. A contact of user \<open>a\<close> is not found by \<open>update_contact\<close> and
  \<open>remove_contact\<close> called for another user \<open>b\<close>: both return \<open>None\<close>
  and leave the database as it is.
\<close>

theorem contact_of_another_user_not_found:
  assumes "distinct (map c_id (contacts d))"
    and "c \<in> set (contacts d)"
    and "c_user_id c = Some (u_id (row a))"
    and "u_id (row b) \<noteq> u_id (row a)"
  shows "update_contact (c_id c) body now d b = (None, d) \<and> remove_contact (c_id c) d b = (None, d)"
proof -
  have "c_user_id c \<noteq> Some (u_id (row b))" using assms(3,4) by simp
  from find_none_other_owner [OF assms(1,2) this]
  show ?thesis by (simp add: update_contact_def remove_contact_def)
qed

theorem contact_of_another_user_not_found_witness:
  "distinct (map c_id (contacts sample_db)) \<and> phone1 \<in> set (contacts sample_db)
   \<and> c_user_id phone1 = Some (u_id (row (load ann))) \<and> u_id (row (load bob)) \<noteq> u_id (row (load ann))
   \<and> update_contact 1 \<lparr>b_phone_number = ''000''\<rparr> 900 sample_db (load bob) = (None, sample_db)
   \<and> remove_contact 1 sample_db (load bob) = (None, sample_db)"
proof -
  have h1: "distinct (map c_id (contacts sample_db))" by (simp add: sample_db_def)
  have h2: "phone1 \<in> set (contacts sample_db)" by (simp add: sample_db_def)
  have h3: "c_user_id phone1 = Some (u_id (row (load ann)))" by (simp add: phone1_def ann_def load_def)
  have h4: "u_id (row (load bob)) \<noteq> u_id (row (load ann))" by (simp add: ann_def bob_def load_def)
  have id: "c_id phone1 = 1" by (simp add: phone1_def)
  show ?thesis
    using h1 h2 h3 h4
      contact_of_another_user_not_found [OF h1 h2 h3 h4, of "\<lparr>b_phone_number = ''000''\<rparr>" 900]
    by (simp add: id)
qed

text \<open>
  C10. A contact that \<open>create_contact\<close> has created has no owner, and
  \<open>update_contact\<close> and \<open>remove_contact\<close> on its id return \<open>None\<close> for
  every caller and leave the database as it is.
\<close>

theorem created_contact_has_no_owner:
  assumes "create_contact body new_id now d = (Inr c, d')"
  shows "c_user_id c = None \<and> c \<in> set (contacts d')
         \<and> update_contact (c_id c) body' now' d' u = (None, d')
         \<and> remove_contact (c_id c) d' u = (None, d')"
proof -
  let ?c = "\<lparr>c_id = new_id, c_phone_number = b_phone_number body, c_created_at = now,
             c_updated_at = now, c_user_id = None\<rparr>"
  from assms have fresh: "\<not> list_ex (\<lambda>x. c_id x = new_id) (contacts d)"
    and c: "c = ?c" and d': "d' = d\<lparr>contacts := contacts d @ [?c]\<rparr>"
    by (auto simp: create_contact_def Let_def split: if_splits)
  have no_match: "\<not> (c_id x = c_id c \<and> c_user_id x = Some uid)"
    if "x \<in> set (contacts d')" for x uid
  proof (cases "x \<in> set (contacts d)")
    case True
    then have "c_id x \<noteq> new_id" using fresh by (auto simp: list_ex_iff)
    then show ?thesis by (simp add: c)
  next
    case False
    with that have "x = ?c" by (simp add: d')
    then have "c_user_id x = None" by simp
    then show ?thesis by simp
  qed
  have "find (\<lambda>x. c_id x = c_id c \<and> c_user_id x = Some uid) (contacts d') = None" for uid
    using no_match by (simp add: find_None_iff)
  then show ?thesis
    by (simp add: update_contact_def remove_contact_def) (simp add: c d')
qed

theorem created_contact_has_no_owner_witness:
  "create_contact \<lparr>b_phone_number = ''0501112233''\<rparr> 2 900 sample_db
     = (Inr \<lparr>c_id = 2, c_phone_number = ''0501112233'', c_created_at = 900, c_updated_at = 900,
             c_user_id = None\<rparr>,
        sample_db\<lparr>contacts := [phone1, \<lparr>c_id = 2, c_phone_number = ''0501112233'', c_created_at = 900,
             c_updated_at = 900, c_user_id = None\<rparr>]\<rparr>)
   \<and> update_contact 2 \<lparr>b_phone_number = ''000''\<rparr> 901
        (sample_db\<lparr>contacts := [phone1, \<lparr>c_id = 2, c_phone_number = ''0501112233'', c_created_at = 900,
             c_updated_at = 900, c_user_id = None\<rparr>]\<rparr>) (load ann)
     = (None, sample_db\<lparr>contacts := [phone1, \<lparr>c_id = 2, c_phone_number = ''0501112233'',
             c_created_at = 900, c_updated_at = 900, c_user_id = None\<rparr>]\<rparr>)"
proof -
  have h: "create_contact \<lparr>b_phone_number = ''0501112233''\<rparr> 2 900 sample_db
     = (Inr \<lparr>c_id = 2, c_phone_number = ''0501112233'', c_created_at = 900, c_updated_at = 900,
             c_user_id = None\<rparr>,
        sample_db\<lparr>contacts := [phone1, \<lparr>c_id = 2, c_phone_number = ''0501112233'', c_created_at = 900,
             c_updated_at = 900, c_user_id = None\<rparr>]\<rparr>)"
    by (simp add: create_contact_def Let_def sample_db_def phone1_def)
  show ?thesis
    using h created_contact_has_no_owner [OF h, of "\<lparr>b_phone_number = ''000''\<rparr>" 901 "load ann"]
    by simp
qed

section \<open>Updating a user\<close>

text \<open>
  C9, as the code has it. \<open>update_user\<close> leaves the table of contacts as it is,
  so the contacts of the user are the same before and after; of the users it changes
  the row of the caller alone, and there the five columns of the body and, with them,
  \<open>updated_at\<close>.
\<close>

theorem update_user_frame:
  assumes "distinct (map u_id (users d))"
  shows "contacts (snd (update_user user_id body now d caller)) = contacts d
       \<and> list_all2
           (\<lambda>x y. if u_id x = user_id \<and> user_id = u_id (row caller)
                  then y = x \<or>
                       y = x\<lparr>u_name := b_name body, u_last_name := b_last_name body,
                             u_day_of_born := b_day_of_born body, u_email := b_email body,
                             u_description := b_description body, u_updated_at := now\<rparr>
                  else y = x)
           (users d) (users (snd (update_user user_id body now d caller)))"
proof (cases "find (\<lambda>x. u_id x = user_id \<and> u_id x = u_id (row caller)) (users d)")
  case None
  then show ?thesis by (simp add: update_user_def list_all2_same)
next
  case (Some r)
  let ?new = "r\<lparr>u_name := b_name body, u_last_name := b_last_name body,
                 u_day_of_born := b_day_of_born body, u_email := b_email body,
                 u_description := b_description body\<rparr>"
  let ?u = "(load r)\<lparr>row := ?new,
              phones_attr := Some (filter (\<lambda>c. c_id c \<in> set (b_contacts body)) (contacts d))\<rparr>"
  from find_in_set [OF Some] have r: "r \<in> set (users d)" "u_id r = user_id" "user_id = u_id (row caller)"
    by auto
  have key: "u_id (row ?u) = u_id r" by simp
  have row: "row ?u = ?new" by simp
  note c = commit_user_stored [OF assms r(1) key, of now, unfolded row]
  show ?thesis
  proof (cases "commit_user now ?u d")
    case (Inl e)
    then show ?thesis using Some by (simp add: update_user_def Let_def list_all2_same)
  next
    case (Inr d')
    then have res: "snd (update_user user_id body now d caller) = d'"
      using Some by (simp add: update_user_def Let_def)
    from Inr c have "d' = d \<or> d' = d\<lparr>users :=
        map (\<lambda>x. if u_id x = u_id r then ?new\<lparr>u_updated_at := now\<rparr> else x) (users d)\<rparr>"
      by (auto split: if_splits)
    then show ?thesis
    proof
      assume "d' = d"
      then show ?thesis unfolding res by (simp add: list_all2_same)
    next
      assume d': "d' = d\<lparr>users :=
        map (\<lambda>x. if u_id x = u_id r then ?new\<lparr>u_updated_at := now\<rparr> else x) (users d)\<rparr>"
      have "\<forall>x\<in>set (users d). u_id x = u_id r \<longrightarrow> x = r"
        using same_key_same_row [OF assms _ r(1)] by blast
      then show ?thesis unfolding res d' using r(2,3)
        by (auto simp: list_all2_map_self)
    qed
  qed
qed

theorem update_user_frame_witness:
  "distinct (map u_id (users sample_db))
   \<and> contacts (snd (update_user 1 new_profile 5000 sample_db (load ann))) = contacts sample_db
   \<and> users (snd (update_user 1 new_profile 5000 sample_db (load ann)))
       = [ann\<lparr>u_name := ''Anna'', u_updated_at := 5000\<rparr>, bob]"
proof -
  have h: "distinct (map u_id (users sample_db))"
    by (simp add: sample_db_def ann_def bob_def)
  have rows: "users (snd (update_user 1 new_profile 5000 sample_db (load ann)))
       = [ann\<lparr>u_name := ''Anna'', u_updated_at := 5000\<rparr>, bob]"
    by (simp add: update_user_def commit_user_def email_taken_def load_def Let_def
        sample_db_def ann_def bob_def new_profile_def)
  from update_user_frame [OF h, of 1 new_profile 5000 "load ann"]
  have "contacts (snd (update_user 1 new_profile 5000 sample_db (load ann))) = contacts sample_db"
    by simp
  with h rows show ?thesis by simp
qed

text \<open>
  The claim as stated names the five columns alone; the UPDATE also refreshes
  \<open>updated_at\<close>.
\<close>

theorem update_user_touches_updated_at:
  "map u_updated_at (users (snd (update_user 1 new_profile 5000 sample_db (load ann))))
     \<noteq> map u_updated_at (users sample_db)"
  by (simp add: update_user_def commit_user_def email_taken_def load_def Let_def
      sample_db_def ann_def bob_def new_profile_def)

section \<open>Signing up\<close>

text \<open>
  C3. For a body whose email no user has, a key the table does not hold yet, and a
  password context whose hash verifies against its password and differs from it,
  \<open>signup\<close> adds one user, not confirmed, whose stored password is that hash,
  and queues the confirmation mail. For an email that a user has, it raises 409 and
  leaves the database and the queue as they are.
\<close>

theorem signup_creates_unconfirmed_user:
  "(find_user_by_email (JStr (b_email body)) d = None
      \<and> \<not> list_ex (\<lambda>x. u_id x = new_id) (users d)
      \<and> cc_verify (pwd_context self) (b_password body) (cc_hash (pwd_context self) (b_password body))
      \<and> cc_hash (pwd_context self) (b_password body) \<noteq> b_password body
    \<longrightarrow> (\<exists>new_user.
          signup self body avatar new_id now base_url tasks d =
            (Inr (new_user, ''User successfully created. Check your email for confirmation.''),
             tasks @ [\<lparr>t_email = b_email body, t_name = b_name body, t_host = base_url\<rparr>],
             d\<lparr>users := users d @ [row new_user],
                contacts := map (\<lambda>c. if c_id c \<in> set (b_contacts body)
                                       then c\<lparr>c_user_id := Some new_id, c_updated_at := now\<rparr> else c)
                              (contacts d)\<rparr>)
          \<and> u_id (row new_user) = new_id
          \<and> u_email (row new_user) = b_email body
          \<and> \<not> u_confirmed (row new_user)
          \<and> verify_password self (b_password body) (u_password (row new_user))
          \<and> u_password (row new_user) \<noteq> b_password body))
   \<and> (find_user_by_email (JStr (b_email body)) d \<noteq> None
    \<longrightarrow> signup self body avatar new_id now base_url tasks d =
          (Inl (HTTPException 409 ''Account already exists''), tasks, d))"
proof (intro conjI impI)
  assume a: "find_user_by_email (JStr (b_email body)) d = None
      \<and> \<not> list_ex (\<lambda>x. u_id x = new_id) (users d)
      \<and> cc_verify (pwd_context self) (b_password body) (cc_hash (pwd_context self) (b_password body))
      \<and> cc_hash (pwd_context self) (b_password body) \<noteq> b_password body"
  then have "find (\<lambda>x. JStr (u_email x) = JStr (b_email body)) (users d) = None"
    by (simp add: find_user_by_email_def)
  from find_none_no_row [OF this] have "\<not> list_ex (\<lambda>x. u_email x = b_email body) (users d)"
    by simp
  with a have fresh: "\<not> list_ex (\<lambda>x. u_id x = new_id \<or> u_email x = b_email body) (users d)"
    by (auto simp: list_ex_iff)
  show "\<exists>new_user.
          signup self body avatar new_id now base_url tasks d =
            (Inr (new_user, ''User successfully created. Check your email for confirmation.''),
             tasks @ [\<lparr>t_email = b_email body, t_name = b_name body, t_host = base_url\<rparr>],
             d\<lparr>users := users d @ [row new_user],
                contacts := map (\<lambda>c. if c_id c \<in> set (b_contacts body)
                                       then c\<lparr>c_user_id := Some new_id, c_updated_at := now\<rparr> else c)
                              (contacts d)\<rparr>)
          \<and> u_id (row new_user) = new_id
          \<and> u_email (row new_user) = b_email body
          \<and> \<not> u_confirmed (row new_user)
          \<and> verify_password self (b_password body) (u_password (row new_user))
          \<and> u_password (row new_user) \<noteq> b_password body"
    using a fresh
    by (simp add: signup_def create_user_def Let_def load_def get_password_hash_def
        verify_password_def)
next
  assume "find_user_by_email (JStr (b_email body)) d \<noteq> None"
  then show "signup self body avatar new_id now base_url tasks d =
          (Inl (HTTPException 409 ''Account already exists''), tasks, d)"
    by (auto simp: signup_def)
qed

theorem signup_creates_unconfirmed_user_witness:
  "find_user_by_email (JStr (b_email carol_body)) sample_db = None
   \<and> \<not> list_ex (\<lambda>x. u_id x = 3) (users sample_db)
   \<and> cc_verify (pwd_context sample_auth) (b_password carol_body)
        (cc_hash (pwd_context sample_auth) (b_password carol_body))
   \<and> cc_hash (pwd_context sample_auth) (b_password carol_body) \<noteq> b_password carol_body
   \<and> (\<exists>new_user.
          fst (signup sample_auth carol_body None 3 900 ''http://host/'' [] sample_db) =
            Inr (new_user, ''User successfully created. Check your email for confirmation.'')
          \<and> u_id (row new_user) = 3
          \<and> \<not> u_confirmed (row new_user)
          \<and> verify_password sample_auth (b_password carol_body) (u_password (row new_user))
          \<and> u_password (row new_user) \<noteq> b_password carol_body)
   \<and> find_user_by_email (JStr (b_email new_profile)) sample_db \<noteq> None
   \<and> signup sample_auth new_profile None 3 900 ''http://host/'' [] sample_db =
       (Inl (HTTPException 409 ''Account already exists''), [], sample_db)"
proof -
  have h1: "find_user_by_email (JStr (b_email carol_body)) sample_db = None"
    by (simp add: find_user_by_email_def sample_db_def ann_def bob_def carol_body_def)
  have h2: "\<not> list_ex (\<lambda>x. u_id x = 3) (users sample_db)"
    by (simp add: sample_db_def ann_def bob_def)
  have h3: "cc_verify (pwd_context sample_auth) (b_password carol_body)
        (cc_hash (pwd_context sample_auth) (b_password carol_body))"
    by (simp add: sample_auth_def)
  have h4: "cc_hash (pwd_context sample_auth) (b_password carol_body) \<noteq> b_password carol_body"
    by (simp add: sample_auth_def)
  have h5: "find_user_by_email (JStr (b_email new_profile)) sample_db \<noteq> None"
    by (simp add: find_user_by_email_def sample_db_def ann_def bob_def new_profile_def)
  note t1 = signup_creates_unconfirmed_user [of carol_body sample_db 3 sample_auth None 900
      "''http://host/''" "[]", THEN conjunct1, rule_format, OF conjI [OF h1 conjI [OF h2 conjI [OF h3 h4]]]]
  note t2 = signup_creates_unconfirmed_user [of new_profile sample_db 3 sample_auth None 900
      "''http://host/''" "[]", THEN conjunct2, rule_format, OF h5]
  from t1 have c1: "\<exists>new_user.
          fst (signup sample_auth carol_body None 3 900 ''http://host/'' [] sample_db) =
            Inr (new_user, ''User successfully created. Check your email for confirmation.'')
          \<and> u_id (row new_user) = 3
          \<and> \<not> u_confirmed (row new_user)
          \<and> verify_password sample_auth (b_password carol_body) (u_password (row new_user))
          \<and> u_password (row new_user) \<noteq> b_password carol_body"
    by auto
  from h1 h2 h3 h4 h5 c1 t2 show ?thesis by blast
qed

section \<open>The confirmed flag\<close>

lemma never_reverts_iff:
  "never_reverts d d' \<longleftrightarrow>
     (\<forall>x\<in>set (users d). \<forall>y\<in>set (users d'). u_id y = u_id x \<and> u_confirmed x \<longrightarrow> u_confirmed y)"
  by (simp add: never_reverts_def list_all_iff)

lemma never_reverts_subset:
  assumes "distinct (map u_id (users d))" and "set (users d') \<subseteq> set (users d)"
  shows "never_reverts d d'"
  unfolding never_reverts_iff
proof (intro ballI impI)
  fix x y
  assume "x \<in> set (users d)" and "y \<in> set (users d')" and xy: "u_id y = u_id x \<and> u_confirmed x"
  with assms have "y = x" using same_key_same_row [of "users d" y x] by auto
  with xy show "u_confirmed y" by simp
qed

lemma never_reverts_map:
  assumes "distinct (map u_id (users d))"
    and "users d' = map f (users d)"
    and "\<And>x. x \<in> set (users d) \<Longrightarrow> u_id (f x) = u_id x \<and> (u_confirmed x \<longrightarrow> u_confirmed (f x))"
  shows "never_reverts d d'"
  unfolding never_reverts_iff
proof (intro ballI impI)
  fix x y
  assume x: "x \<in> set (users d)" and y: "y \<in> set (users d')" and xy: "u_id y = u_id x \<and> u_confirmed x"
  from y assms(2) obtain z where z: "z \<in> set (users d)" "y = f z" by auto
  with assms(3) [of z] xy have "u_id z = u_id x" by simp
  with assms(1) x z have "z = x" using same_key_same_row [of "users d" z x] by simp
  with assms(3) [of x] x xy z show "u_confirmed y" by simp
qed

lemma never_reverts_append:
  assumes "distinct (map u_id (users d))"
    and "users d' = users d @ [n]"
    and "\<not> list_ex (\<lambda>x. u_id x = u_id n) (users d)"
  shows "never_reverts d d'"
  unfolding never_reverts_iff
proof (intro ballI impI)
  fix x y
  assume x: "x \<in> set (users d)" and y: "y \<in> set (users d')" and xy: "u_id y = u_id x \<and> u_confirmed x"
  from assms(3) x have "u_id x \<noteq> u_id n" by (auto simp: list_ex_iff)
  with y xy assms(2) have "y \<in> set (users d)" by auto
  with assms(1) x xy have "y = x" using same_key_same_row [of "users d" y x] by simp
  with xy show "u_confirmed y" by simp
qed

lemma commit_user_users:
  assumes "commit_user now u d = Inr d'"
  shows "users d' = users d \<or>
         users d' = map (\<lambda>x. if u_id x = u_id (row u) then (row u)\<lparr>u_updated_at := now\<rparr> else x) (users d)"
  using assms by (auto simp: commit_user_def split: option.splits if_splits)

lemma never_reverts_commit:
  assumes "distinct (map u_id (users d))"
    and "commit_user now u d = Inr d'"
    and "\<And>x. x \<in> set (users d) \<Longrightarrow> u_id x = u_id (row u) \<Longrightarrow> u_confirmed x \<Longrightarrow> u_confirmed (row u)"
  shows "never_reverts d d'"
proof -
  from commit_user_users [OF assms(2)] show ?thesis
  proof
    assume "users d' = users d"
    then show ?thesis using never_reverts_subset [OF assms(1), of d'] by simp
  next
    assume "users d' =
      map (\<lambda>x. if u_id x = u_id (row u) then (row u)\<lparr>u_updated_at := now\<rparr> else x) (users d)"
    from never_reverts_map [OF assms(1) this] assms(3) show ?thesis by simp
  qed
qed

lemma never_reverts_refl: "distinct (map u_id (users d)) \<Longrightarrow> never_reverts d d"
  using never_reverts_subset [of d d] by simp

lemma never_reverts_create_user:
  assumes "distinct (map u_id (users d))"
  shows "never_reverts d (snd (create_user body avatar new_id now d))"
proof (cases "list_ex (\<lambda>x. u_id x = new_id \<or> u_email x = b_email body) (users d)")
  case True
  then show ?thesis using never_reverts_refl [OF assms] by (simp add: create_user_def Let_def)
next
  case False
  let ?n = "\<lparr>u_id = new_id, u_name = b_name body, u_last_name = b_last_name body,
             u_day_of_born = b_day_of_born body, u_email = b_email body,
             u_password = b_password body, u_description = b_description body,
             u_avatar = avatar, u_created_at = now, u_updated_at = now, u_confirmed = False\<rparr>"
  from False have fresh: "\<not> list_ex (\<lambda>x. u_id x = u_id ?n) (users d)"
    by (auto simp: list_ex_iff)
  from False have "users (snd (create_user body avatar new_id now d)) = users d @ [?n]"
    by (simp add: create_user_def Let_def)
  from never_reverts_append [OF assms this fresh] show ?thesis .
qed

lemma never_reverts_update_user:
  assumes "distinct (map u_id (users d))"
  shows "never_reverts d (snd (update_user user_id body now d caller))"
proof (cases "find (\<lambda>x. u_id x = user_id \<and> u_id x = u_id (row caller)) (users d)")
  case None
  then show ?thesis using never_reverts_refl [OF assms] by (simp add: update_user_def)
next
  case (Some r)
  let ?u = "(load r)\<lparr>row := r\<lparr>u_name := b_name body, u_last_name := b_last_name body,
                 u_day_of_born := b_day_of_born body, u_email := b_email body,
                 u_description := b_description body\<rparr>,
              phones_attr := Some (filter (\<lambda>c. c_id c \<in> set (b_contacts body)) (contacts d))\<rparr>"
  from find_in_set [OF Some] have r: "r \<in> set (users d)" by simp
  show ?thesis
  proof (cases "commit_user now ?u d")
    case (Inl e)
    then show ?thesis using Some never_reverts_refl [OF assms]
      by (simp add: update_user_def Let_def)
  next
    case (Inr d')
    have "never_reverts d d'"
    proof (rule never_reverts_commit [OF assms Inr])
      fix x assume "x \<in> set (users d)" and "u_id x = u_id (row ?u)" and c: "u_confirmed x"
      with same_key_same_row [OF assms _ r, of x] have "x = r" by simp
      with c show "u_confirmed (row ?u)" by simp
    qed
    then show ?thesis using Some Inr by (simp add: update_user_def Let_def)
  qed
qed

lemma never_reverts_remove_user:
  assumes "distinct (map u_id (users d))"
  shows "never_reverts d (snd (remove_user user_id now d caller))"
  by (rule never_reverts_subset [OF assms]) (auto simp: remove_user_def split: option.splits)

lemma never_reverts_update_avatar:
  assumes "distinct (map u_id (users d))"
  shows "never_reverts d (snd (update_avatar email url now d))"
proof (cases "find_user_by_email email d")
  case None
  then show ?thesis using never_reverts_refl [OF assms] by (simp add: update_avatar_def)
next
  case (Some u)
  let ?u = "u\<lparr>row := (row u)\<lparr>u_avatar := Some url\<rparr>\<rparr>"
  from found_by_email [OF Some] have r: "row u \<in> set (users d)" by simp
  show ?thesis
  proof (cases "commit_user now ?u d")
    case (Inl e)
    then show ?thesis using Some never_reverts_refl [OF assms]
      by (simp add: update_avatar_def Let_def)
  next
    case (Inr d')
    have "never_reverts d d'"
    proof (rule never_reverts_commit [OF assms Inr])
      fix x assume "x \<in> set (users d)" and "u_id x = u_id (row ?u)" and c: "u_confirmed x"
      with same_key_same_row [OF assms _ r, of x] have "x = row u" by simp
      with c show "u_confirmed (row ?u)" by simp
    qed
    then show ?thesis using Some Inr by (simp add: update_avatar_def Let_def)
  qed
qed

lemma never_reverts_confirmed_email:
  assumes "distinct (map u_id (users d))"
  shows "never_reverts d (snd (confirmed_email email now d))"
proof (cases "find_user_by_email email d")
  case None
  then show ?thesis using never_reverts_refl [OF assms] by (simp add: confirmed_email_def)
next
  case (Some u)
  let ?u = "u\<lparr>row := (row u)\<lparr>u_confirmed := True\<rparr>\<rparr>"
  show ?thesis
  proof (cases "commit_user now ?u d")
    case (Inl e)
    then show ?thesis using Some never_reverts_refl [OF assms]
      by (simp add: confirmed_email_def)
  next
    case (Inr d')
    have "never_reverts d d'"
      by (rule never_reverts_commit [OF assms Inr]) simp
    then show ?thesis using Some Inr by (simp add: confirmed_email_def)
  qed
qed

lemma never_reverts_contacts:
  assumes "distinct (map u_id (users d))"
  shows "never_reverts d (snd (create_contact body new_id now d))"
    and "never_reverts d (snd (update_contact contact_id body now d caller))"
    and "never_reverts d (snd (remove_contact contact_id d caller))"
  by (rule never_reverts_subset [OF assms];
      simp add: create_contact_def update_contact_def remove_contact_def commit_contact_def
        Let_def split: option.splits)+

lemma never_reverts_signup:
  assumes "distinct (map u_id (users d))"
  shows "never_reverts d (snd (snd (signup self body avatar new_id now base_url tasks d)))"
proof (cases "find_user_by_email (JStr (b_email body)) d")
  case (Some u)
  then show ?thesis using never_reverts_refl [OF assms] by (simp add: signup_def)
next
  case None
  let ?body = "body\<lparr>b_password := get_password_hash self (b_password body)\<rparr>"
  have "snd (snd (signup self body avatar new_id now base_url tasks d))
          = snd (create_user ?body avatar new_id now d)"
    using None by (simp add: signup_def Let_def split: prod.splits sum.splits)
  then show ?thesis using never_reverts_create_user [OF assms] by simp
qed

lemma login_keeps_db: "snd (login self now username password d) = d"
  by (simp add: login_def update_token_def Let_def split: option.splits sum.splits)

lemma refresh_token_keeps_db: "snd (refresh_token self now tok d) = d"
  by (simp add: refresh_token_def update_token_def Let_def split: sum.splits option.splits)

lemma never_reverts_confirmed_email_route:
  assumes "distinct (map u_id (users d))"
  shows "never_reverts d (snd (confirmed_email_route self now tok d))"
proof (cases "get_email_from_token self now tok")
  case (Inl e)
  then show ?thesis using never_reverts_refl [OF assms] by (simp add: confirmed_email_route_def)
next
  case (Inr email)
  show ?thesis
  proof (cases "find_user_by_email email d")
    case None
    then show ?thesis using Inr never_reverts_refl [OF assms]
      by (simp add: confirmed_email_route_def)
  next
    case (Some u)
    show ?thesis
    proof (cases "u_confirmed (row u)")
      case True
      then show ?thesis using Inr Some never_reverts_refl [OF assms]
        by (simp add: confirmed_email_route_def)
    next
      case False
      then have "snd (confirmed_email_route self now tok d) = snd (confirmed_email email now d)"
        using Inr Some by (simp add: confirmed_email_route_def split: prod.splits sum.splits)
      then show ?thesis using never_reverts_confirmed_email [OF assms] by simp
    qed
  qed
qed

lemma never_reverts_run:
  assumes "distinct (map u_id (users d))"
  shows "never_reverts d (run op d)"
proof (cases op)
  case (Create_user body avatar new_id now)
  then show ?thesis using never_reverts_create_user [OF assms] by simp
next
  case (Update_user user_id body now caller)
  then show ?thesis using never_reverts_update_user [OF assms] by simp
next
  case (Remove_user user_id now caller)
  then show ?thesis using never_reverts_remove_user [OF assms] by simp
next
  case (Update_token u tok)
  then show ?thesis using never_reverts_refl [OF assms] by (simp add: update_token_def)
next
  case (Update_avatar email url now)
  then show ?thesis using never_reverts_update_avatar [OF assms] by simp
next
  case (Confirmed_email email now)
  then show ?thesis using never_reverts_confirmed_email [OF assms] by simp
next
  case (Create_contact body new_id now)
  then show ?thesis using never_reverts_contacts(1) [OF assms] by simp
next
  case (Update_contact contact_id body now caller)
  then show ?thesis using never_reverts_contacts(2) [OF assms] by simp
next
  case (Remove_contact contact_id caller)
  then show ?thesis using never_reverts_contacts(3) [OF assms] by simp
next
  case (Signup self body avatar new_id now base_url tasks)
  then show ?thesis using never_reverts_signup [OF assms] by simp
next
  case (Login self now username password)
  then show ?thesis using never_reverts_refl [OF assms] by (simp add: login_keeps_db)
next
  case (Refresh_token self now tok)
  then show ?thesis using never_reverts_refl [OF assms] by (simp add: refresh_token_keeps_db)
next
  case (Confirmed_email_route self now tok)
  then show ?thesis using never_reverts_confirmed_email_route [OF assms] by simp
qed

lemma first_confirmation:
  assumes "find_user_by_email email d = Some u"
    and "\<not> u_confirmed (row u)"
    and "distinct (map u_id (users d))"
  shows "confirmed_email email now d =
           (Inr (), d\<lparr>users := map (\<lambda>x. if u_id x = u_id (row u)
                                        then x\<lparr>u_confirmed := True, u_updated_at := now\<rparr> else x)
                                 (users d)\<rparr>)"
proof -
  let ?u = "u\<lparr>row := (row u)\<lparr>u_confirmed := True\<rparr>\<rparr>"
  from found_by_email [OF assms(1)] have r: "row u \<in> set (users d)" by simp
  have key: "u_id (row ?u) = u_id (row u)" by simp
  have "commit_user now ?u d =
          Inr (d\<lparr>users := map (\<lambda>x. if u_id x = u_id (row u)
                                   then (row ?u)\<lparr>u_updated_at := now\<rparr> else x) (users d)\<rparr>)"
    using commit_user_stored [OF assms(3) r key, of now] assms(2)
    by (auto dest: arg_cong [where f = u_confirmed])
  moreover have "map (\<lambda>x. if u_id x = u_id (row u) then (row ?u)\<lparr>u_updated_at := now\<rparr> else x) (users d)
      = map (\<lambda>x. if u_id x = u_id (row u) then x\<lparr>u_confirmed := True, u_updated_at := now\<rparr> else x)
          (users d)"
  proof (rule map_cong [OF refl])
    fix x assume "x \<in> set (users d)"
    then show "(if u_id x = u_id (row u) then (row ?u)\<lparr>u_updated_at := now\<rparr> else x)
        = (if u_id x = u_id (row u) then x\<lparr>u_confirmed := True, u_updated_at := now\<rparr> else x)"
      using same_key_same_row [OF assms(3) _ r, of x] by auto
  qed
  ultimately show ?thesis using assms(1) by (simp add: confirmed_email_def)
qed

text \<open>
  C4. No operation turns a confirmed user into an unconfirmed one. Confirming the
  email of a confirmed user returns \<open>Your email is already confirmed\<close> and leaves
  the database as it is; confirming for the first time returns \<open>Email confirmed\<close>
  and sets the flag (and \<open>updated_at\<close>) of that user's row and of no other.
\<close>

theorem confirmed_flag_only_rises:
  "(distinct (map u_id (users d)) \<longrightarrow> never_reverts d (run op d))
   \<and> (get_email_from_token self now tok = Inr email \<and> find_user_by_email email d = Some u
        \<and> u_confirmed (row u)
      \<longrightarrow> confirmed_email_route self now tok d = (Inr ''Your email is already confirmed'', d))
   \<and> (get_email_from_token self now tok = Inr email \<and> find_user_by_email email d = Some u
        \<and> \<not> u_confirmed (row u) \<and> distinct (map u_id (users d))
      \<longrightarrow> confirmed_email_route self now tok d =
            (Inr ''Email confirmed'',
             d\<lparr>users := map (\<lambda>x. if u_id x = u_id (row u)
                                 then x\<lparr>u_confirmed := True, u_updated_at := now\<rparr> else x)
                          (users d)\<rparr>))"
proof (intro conjI impI)
  assume "distinct (map u_id (users d))"
  then show "never_reverts d (run op d)" by (rule never_reverts_run)
next
  assume "get_email_from_token self now tok = Inr email \<and> find_user_by_email email d = Some u
        \<and> u_confirmed (row u)"
  then show "confirmed_email_route self now tok d = (Inr ''Your email is already confirmed'', d)"
    by (simp add: confirmed_email_route_def)
next
  assume a: "get_email_from_token self now tok = Inr email \<and> find_user_by_email email d = Some u
        \<and> \<not> u_confirmed (row u) \<and> distinct (map u_id (users d))"
  then have "confirmed_email email now d =
           (Inr (), d\<lparr>users := map (\<lambda>x. if u_id x = u_id (row u)
                                        then x\<lparr>u_confirmed := True, u_updated_at := now\<rparr> else x)
                                 (users d)\<rparr>)"
    using first_confirmation by blast
  with a show "confirmed_email_route self now tok d =
            (Inr ''Email confirmed'',
             d\<lparr>users := map (\<lambda>x. if u_id x = u_id (row u)
                                 then x\<lparr>u_confirmed := True, u_updated_at := now\<rparr> else x)
                          (users d)\<rparr>)"
    by (simp add: confirmed_email_route_def)
qed

theorem confirmed_flag_only_rises_witness:
  "distinct (map u_id (users sample_db))
   \<and> create_email_token sample_auth 1000 ann_claims = Inr ann_email_token
   \<and> create_email_token sample_auth 1000 bob_claims = Inr bob_email_token
   \<and> never_reverts sample_db
       (run (Update_user 1 new_profile 5000 (load ann)) sample_db)
   \<and> get_email_from_token sample_auth 1001 ann_email_token
       = Inr (JStr ''ann@example.com'')
   \<and> find_user_by_email (JStr ''ann@example.com'') sample_db = Some (load ann)
   \<and> u_confirmed (row (load ann))
   \<and> confirmed_email_route sample_auth 1001 ann_email_token sample_db
       = (Inr ''Your email is already confirmed'', sample_db)
   \<and> get_email_from_token sample_auth 1001 bob_email_token
       = Inr (JStr ''bob@example.com'')
   \<and> find_user_by_email (JStr ''bob@example.com'') sample_db = Some (load bob)
   \<and> \<not> u_confirmed (row (load bob))
   \<and> confirmed_email_route sample_auth 1001 bob_email_token sample_db
       = (Inr ''Email confirmed'',
          sample_db\<lparr>users := [ann, bob\<lparr>u_confirmed := True, u_updated_at := 1001\<rparr>]\<rparr>)"
proof -
  have h0: "distinct (map u_id (users sample_db))"
    by (simp add: sample_db_def ann_def bob_def)
  have i1: "create_email_token sample_auth 1000 ann_claims = Inr ann_email_token"
    by (simp add: create_email_token_def datetime_plus_def in_datetime_range_def
        sample_auth_def ann_claims_def ann_email_token_def jwt_encode_def)
  have i2: "create_email_token sample_auth 1000 bob_claims = Inr bob_email_token"
    by (simp add: create_email_token_def datetime_plus_def in_datetime_range_def
        sample_auth_def bob_claims_def bob_email_token_def jwt_encode_def)
  have a1: "get_email_from_token sample_auth 1001 ann_email_token
       = Inr (JStr ''ann@example.com'')"
    by (simp add: get_email_from_token_def ann_email_token_def sample_auth_def jose_defs)
  have a2: "find_user_by_email (JStr ''ann@example.com'') sample_db = Some (load ann)"
    by (simp add: find_user_by_email_def sample_db_def ann_def)
  have a3: "u_confirmed (row (load ann))" by (simp add: load_def ann_def)
  have b1: "get_email_from_token sample_auth 1001 bob_email_token
       = Inr (JStr ''bob@example.com'')"
    by (simp add: get_email_from_token_def bob_email_token_def sample_auth_def jose_defs)
  have b2: "find_user_by_email (JStr ''bob@example.com'') sample_db = Some (load bob)"
    by (simp add: find_user_by_email_def sample_db_def ann_def bob_def)
  have b3: "\<not> u_confirmed (row (load bob))" by (simp add: load_def bob_def)
  have rows: "map (\<lambda>x. if u_id x = u_id (row (load bob))
                        then x\<lparr>u_confirmed := True, u_updated_at := 1001\<rparr> else x) (users sample_db)
      = [ann, bob\<lparr>u_confirmed := True, u_updated_at := 1001\<rparr>]"
    by (simp add: sample_db_def load_def ann_def bob_def)
  from h0 confirmed_flag_only_rises [of sample_db "Update_user 1 new_profile 5000 (load ann)"]
  have c0: "never_reverts sample_db (run (Update_user 1 new_profile 5000 (load ann)) sample_db)"
    by blast
  from a1 a2 a3
    confirmed_flag_only_rises [of sample_db _ sample_auth 1001
      ann_email_token "JStr ''ann@example.com''" "load ann"]
  have c1: "confirmed_email_route sample_auth 1001 ann_email_token
      sample_db = (Inr ''Your email is already confirmed'', sample_db)"
    by blast
  from b1 b2 b3 h0
    confirmed_flag_only_rises [of sample_db _ sample_auth 1001
      bob_email_token "JStr ''bob@example.com''" "load bob"]
  have "confirmed_email_route sample_auth 1001 bob_email_token
      sample_db = (Inr ''Email confirmed'',
        sample_db\<lparr>users := map (\<lambda>x. if u_id x = u_id (row (load bob))
                        then x\<lparr>u_confirmed := True, u_updated_at := 1001\<rparr> else x) (users sample_db)\<rparr>)"
    by blast
  then have c2: "confirmed_email_route sample_auth 1001 bob_email_token sample_db
       = (Inr ''Email confirmed'',
          sample_db\<lparr>users := [ann, bob\<lparr>u_confirmed := True, u_updated_at := 1001\<rparr>]\<rparr>)"
    by (simp only: rows)
  from h0 i1 i2 c0 a1 a2 a3 c1 b1 b2 b3 c2 show ?thesis by blast
qed

end
